theory Spec2Isabelle
  imports Complex_Main
begin

section \<open>The declarations of \<^verbatim>\<open>index.d.ts\<close>\<close>

text \<open>
  The source is one TypeScript declaration file. It declares the classes of the
  CoffeeScript compiler's syntax tree, a scope class, and the shape of three modules.
  The classes refer to each other in their field types (\<^verbatim>\<open>Base\<close> has a field of type
  \<^verbatim>\<open>Base[]\<close>, \<^verbatim>\<open>Value\<close> refers to \<^verbatim>\<open>Assign\<close> and back), so they cannot each become a HOL
  record. The file is therefore transcribed as data: every declaration becomes a value
  of the datatypes below, in the order of the source, and the functions over this data
  (lookup of a name, the chain of superclasses, the members a class has together with
  the inherited ones, the values a declared type admits) are what the theorems are about.
\<close>

subsection \<open>Type expressions\<close>

text \<open>
  A \<open>slot\<close> is a name, the marker \<^verbatim>\<open>?\<close> (optional) and a type: a parameter of a method, or
  a member of an object type written in braces. \<^verbatim>\<open>T[]\<close> and \<^verbatim>\<open>Array<T>\<close> are the same
  type in TypeScript and both are \<open>TArray\<close>. \<open>TRef\<close> is a name as it is written in the
  file, \<open>TQual\<close> a name qualified by a namespace (\<^verbatim>\<open>Nodes.Block\<close>).
\<close>

datatype ty =
    TAny
  | TString
  | TNumber
  | TBoolean
  | TVoid
  | TNull
  | TUndefined
  | TTrue
  | TStrLit string
  | TRef string
  | TQual string string
  | TArray ty
  | TUnion "ty list"
  | TObject "(string \<times> bool \<times> ty) list"
  | TFunc "(string \<times> bool \<times> ty) list" ty

type_synonym slot = "string \<times> bool \<times> ty"

subsection \<open>Members and declarations\<close>

text \<open>
  A member of a class or interface is a property (name, optional marker, type) or a
  method (name, parameters, result type). The last component of each is the text of
  the initializer or of the body when the source has one. Every member of every class
  in the file carries the modifier \<^verbatim>\<open>public\<close>; the members of the interfaces carry none,
  which means the same.
\<close>

datatype member =
    Property string bool ty "string option"
  | Method string "slot list" ty "string option"

text \<open>
  The statements of the file. \<open>ModuleDecl m x\<close> is
  \<^verbatim>\<open>declare module 'm' { export = x; }\<close>. \<open>ConstDecl\<close> carries the declared type and
  the initializer when there is one. At the top level a statement is written with or
  without the modifier \<^verbatim>\<open>declare\<close>.
\<close>

datatype statement =
    ClassDecl string "string option" "member list"
  | InterfaceDecl string "member list"
  | AliasDecl string ty
  | NamespaceDecl string "statement list"
  | ModuleDecl string string
  | ConstDecl string ty "string option"

datatype toplevel = Declare statement | Plain statement

subsection \<open>Lines 3 to 34: the scope class, compile options, child kinds, code fragments\<close>

definition Scope_decl :: statement where
  "Scope_decl = ClassDecl ''Scope'' None
     [ Property ''variables'' False
         (TArray (TObject [(''name'', False, TString), (''type'', False, TString)])) None,
       Property ''positions'' False TAny None,
       Property ''utilities'' True TAny None ]"

definition AbstractO_decl :: statement where
  "AbstractO_decl = InterfaceDecl ''AbstractO''
     [ Property ''index'' False TNumber None,
       Property ''level'' False TNumber None,
       Property ''indent'' False TNumber None,
       Property ''sharedScope'' False TBoolean None,
       Property ''scope'' True (TRef ''Scope'') None ]"

definition child_kinds :: "string list" where
  "child_kinds =
     [ ''accessor'', ''alias'', ''args'', ''array'', ''attempt'', ''base'', ''body'',
       ''cases'', ''child'', ''class'', ''clause'', ''condition'', ''defaultBinding'',
       ''elseBody'', ''ensure'', ''expression'', ''expressions'', ''first'', ''from'',
       ''guard'', ''index'', ''name'', ''namedImports'', ''object'', ''objects'', ''original'',
       ''otherwise'', ''params'', ''parent'', ''properties'', ''range'', ''recovery'', ''second'',
       ''source'', ''specifiers'', ''step'', ''subject'', ''to'', ''value'', ''variable'' ]"

definition ChildKind_decl :: statement where
  "ChildKind_decl = AliasDecl ''ChildKind'' (TUnion (map TStrLit child_kinds))"

definition CodeFragment_decl :: statement where
  "CodeFragment_decl = ClassDecl ''CodeFragment'' None
     [ Property ''locationData'' False (TRef ''LocationData'') None,
       Method ''toString'' [] TString None ]"

text \<open>
  The documentation comment of \<^verbatim>\<open>CodeFragment\<close> (lines 25 to 30 of the source), one
  string for each line of text.
\<close>

definition CodeFragment_doc :: "string list" where
  "CodeFragment_doc =
     [ ''The various nodes defined below all compile to a collection of **CodeFragment** objects.'',
       ''A CodeFragments is a block of generated code, and the location in the source file where the code'',
       ''came from. CodeFragments can be assembled together into working code just by catting together'',
       ''all the CodeFragments' `code` snippets, in order.'' ]"

subsection \<open>Lines 47 to 156: the base class, hoist targets, blocks\<close>

definition Base_decl :: statement where
  "Base_decl = ClassDecl ''Base'' None
     [ Property ''children'' False (TArray (TRef ''ChildKind'')) None,
       Property ''compiledComments'' False (TArray (TRef ''Base'')) None,
       Property ''locationData'' False (TRef ''LocationData'') None,
       Method ''contains'' [(''pred'', False, TRef ''Base'')] (TUnion [TTrue, TUndefined]) None,
       Method ''lastNode''
         [(''list'', False, TArray (TRef ''Base''))]
         (TUnion [TRef ''Base'', TNull]) None,
       Method ''toString'' [(''idt'', True, TString), (''name'', True, TString)] TString None,
       Method ''eachChild''
         [(''func'', False, TFunc [(''child'', False, TRef ''Base'')] TBoolean)]
         (TRef ''Base'') None,
       Method ''traverseChildren''
         [(''crossScope'', False, TBoolean),
          (''func'', False, TFunc [(''child'', False, TRef ''Base'')] TBoolean)]
         TVoid None,
       Method ''replaceInContext''
         [(''match'', False, TFunc [(''child'', False, TRef ''Base'')] TBoolean),
          (''replacement'', False,
             TFunc [(''childOrChildren'', False,
                       TUnion [TRef ''Base'', TArray (TRef ''Base'')]),
                    (''context'', False, TRef ''Base'')]
               (TRef ''Base''))]
         TBoolean None,
       Method ''unwrapAll'' [] (TRef ''Base'') None,
       Method ''isStatement'' [(''o'', True, TRef ''AbstractO'')] TBoolean None,
       Method ''includeCommentFragments'' [] TBoolean None,
       Method ''jumps'' [(''o'', True, TRef ''AbstractO'')] TBoolean None,
       Method ''shouldCache'' [(''o'', True, TRef ''AbstractO'')] TBoolean None,
       Method ''isChainable'' [(''o'', True, TRef ''AbstractO'')] TBoolean None,
       Method ''isAssignable'' [(''o'', True, TRef ''AbstractO'')] TBoolean None,
       Method ''isNumber'' [(''o'', True, TRef ''AbstractO'')] TBoolean None,
       Method ''assigns'' [(''name'', False, TString)] TBoolean None,
       Method ''joinFragmentArrays''
         [(''fragmentsList'', False, TArray (TRef ''Base'')), (''joinStr'', False, TString)]
         (TArray TAny) None ]"

definition HoistTarget_decl :: statement where
  "HoistTarget_decl = ClassDecl ''HoistTarget'' (Some ''Base'')
     [ Method ''isStatement'' [(''o'', False, TRef ''AbstractO'')] TBoolean None ]"

definition Block_decl :: statement where
  "Block_decl = ClassDecl ''Block'' (Some ''Base'')
     [ Property ''expressions'' False (TArray (TRef ''Base'')) None ]"

subsection \<open>Lines 165 to 182: literals\<close>

definition Literal_decl :: statement where
  "Literal_decl = ClassDecl ''Literal'' (Some ''Base'')
     [ Property ''value'' False TString None ]"

definition NumberLiteral_decl :: statement where
  "NumberLiteral_decl = ClassDecl ''NumberLiteral'' (Some ''Literal'') []"

definition InfinityLiteral_decl :: statement where
  "InfinityLiteral_decl = ClassDecl ''InfinityLiteral'' (Some ''NumberLiteral'') []"

definition NaNLiteral_decl :: statement where
  "NaNLiteral_decl = ClassDecl ''NaNLiteral'' (Some ''NumberLiteral'') []"

definition StringLiteral_decl :: statement where
  "StringLiteral_decl = ClassDecl ''StringLiteral'' (Some ''Literal'') []"

definition RegexLiteral_decl :: statement where
  "RegexLiteral_decl = ClassDecl ''RegexLiteral'' (Some ''Literal'') []"

definition PassthroughLiteral_decl :: statement where
  "PassthroughLiteral_decl = ClassDecl ''PassthroughLiteral'' (Some ''Literal'') []"

definition IdentifierLiteral_decl :: statement where
  "IdentifierLiteral_decl = ClassDecl ''IdentifierLiteral'' (Some ''Literal'') []"

definition CSXTag_decl :: statement where
  "CSXTag_decl = ClassDecl ''CSXTag'' (Some ''IdentifierLiteral'') []"

definition PropertyName_decl :: statement where
  "PropertyName_decl = ClassDecl ''PropertyName'' (Some ''Literal'') []"

definition StatementLiteral_decl :: statement where
  "StatementLiteral_decl = ClassDecl ''StatementLiteral'' (Some ''Literal'') []"

definition ThisLiteral_decl :: statement where
  "ThisLiteral_decl = ClassDecl ''ThisLiteral'' (Some ''Literal'') []"

definition UndefinedLiteral_decl :: statement where
  "UndefinedLiteral_decl = ClassDecl ''UndefinedLiteral'' (Some ''Literal'') []"

definition NullLiteral_decl :: statement where
  "NullLiteral_decl = ClassDecl ''NullLiteral'' (Some ''Literal'') []"

definition BooleanLiteral_decl :: statement where
  "BooleanLiteral_decl = ClassDecl ''BooleanLiteral'' (Some ''Literal'') []"

subsection \<open>Lines 185 to 230: return, values, comments\<close>

definition Return_decl :: statement where
  "Return_decl = ClassDecl ''Return'' (Some ''Base'')
     [ Property ''expression'' False (TArray (TRef ''Base'')) None ]"

definition YieldReturn_decl :: statement where
  "YieldReturn_decl = ClassDecl ''YieldReturn'' (Some ''Return'') []"

definition AwaitReturn_decl :: statement where
  "AwaitReturn_decl = ClassDecl ''AwaitReturn'' (Some ''Return'') []"

definition Value_decl :: statement where
  "Value_decl = ClassDecl ''Value'' (Some ''Base'')
     [ Property ''base'' False
         (TUnion [TRef ''Obj'', TRef ''Literal'', TRef ''PropertyName'', TRef ''Code'',
                  TRef ''Call'']) None,
       Property ''properties'' False
         (TUnion [TArray (TRef ''Assign''), TArray (TRef ''Access'')]) None,
       Property ''isDefaultValue'' False TBoolean None,
       Method ''shouldCache'' [] TBoolean None,
       Method ''assigns'' [(''name'', False, TString)] TBoolean None,
       Method ''jumps'' [(''o'', False, TRef ''AbstractO'')] TBoolean None,
       Method ''isAssignable'' [] TBoolean None,
       Method ''isStatement'' [(''o'', False, TRef ''AbstractO'')] TBoolean None,
       Method ''hasProperties'' [] TBoolean None,
       Method ''isArray'' [] TBoolean None,
       Method ''isRange'' [] TBoolean None,
       Method ''isNumber'' [] TBoolean None,
       Method ''isString'' [] TBoolean None,
       Method ''isRegex'' [] TBoolean None,
       Method ''isUndefined'' [] TBoolean None,
       Method ''isNull'' [] TBoolean None,
       Method ''isBoolean'' [] TBoolean None,
       Method ''isAtomic'' [] TBoolean None,
       Method ''isNotCallable'' [] TBoolean None,
       Method ''isObject'' [(''onlyGenerated'', False, TBoolean)] TBoolean None,
       Method ''isSplice'' [] TBoolean None,
       Method ''looksStatic'' [(''className'', False, TString)] TBoolean None ]"

definition HereComment_decl :: statement where
  "HereComment_decl = ClassDecl ''HereComment'' (Some ''Base'')
     [ Property ''content'' False TString None,
       Property ''newLine'' False TBoolean None,
       Property ''unshift'' False TBoolean None ]"

definition LineComment_decl :: statement where
  "LineComment_decl = ClassDecl ''LineComment'' (Some ''Base'')
     [ Property ''content'' False TString None,
       Property ''newLine'' False TBoolean None,
       Property ''unshift'' False TBoolean None ]"

subsection \<open>Lines 232 to 291: calls, accessors, ranges, objects, arrays, classes\<close>

definition Call_decl :: statement where
  "Call_decl = ClassDecl ''Call'' (Some ''Base'')
     [ Property ''variable'' False (TRef ''Value'') None,
       Property ''args'' False (TArray (TRef ''Param'')) None,
       Property ''isNew'' False TBoolean None,
       Property ''csx'' False TBoolean None ]"

definition DynamicImportCall_decl :: statement where
  "DynamicImportCall_decl = ClassDecl ''DynamicImportCall'' (Some ''Call'') []"

definition SuperCall_decl :: statement where
  "SuperCall_decl = ClassDecl ''SuperCall'' (Some ''Call'') []"

definition Super_decl :: statement where
  "Super_decl = ClassDecl ''Super'' (Some ''Base'')
     [ Property ''ancestor'' False (TRef ''Base'') None ]"

definition RegexWithInterpolations_decl :: statement where
  "RegexWithInterpolations_decl = ClassDecl ''RegexWithInterpolations'' (Some ''Call'') []"

definition TaggedTemplateCall_decl :: statement where
  "TaggedTemplateCall_decl = ClassDecl ''TaggedTemplateCall'' (Some ''Call'') []"

definition Extends_decl :: statement where
  "Extends_decl = ClassDecl ''Extends'' (Some ''Base'')
     [ Property ''child'' False (TRef ''IdentifierLiteral'') None,
       Property ''parent'' False (TRef ''IdentifierLiteral'') None ]"

definition Access_decl :: statement where
  "Access_decl = ClassDecl ''Access'' (Some ''Base'')
     [ Property ''name'' False (TUnion [TRef ''IdentifierLiteral'', TRef ''PropertyName'']) None ]"

definition Index_decl :: statement where
  "Index_decl = ClassDecl ''Index'' (Some ''Base'')
     [ Property ''index'' False (TRef ''Value'') None ]"

definition Range_decl :: statement where
  "Range_decl = ClassDecl ''Range'' (Some ''Base'')
     [ Property ''from'' False (TRef ''Value'') None,
       Property ''to'' False (TRef ''Value'') None ]"

definition Slice_decl :: statement where
  "Slice_decl = ClassDecl ''Slice'' (Some ''Base'')
     [ Property ''range'' False (TRef ''Range'') None ]"

definition Obj_decl :: statement where
  "Obj_decl = ClassDecl ''Obj'' (Some ''Base'')
     [ Property ''generated'' False TBoolean None,
       Property ''lhs'' False TBoolean None,
       Property ''objects'' False (TArray (TRef ''PropertyName'')) None,
       Property ''properties'' False (TArray (TRef ''Assign'')) None,
       Method ''hasSplat'' [] TBoolean None ]"

definition Arr_decl :: statement where
  "Arr_decl = ClassDecl ''Arr'' (Some ''Base'')
     [ Property ''lhs'' False TBoolean None,
       Property ''objects'' False (TArray (TRef ''PropertyName'')) None ]"

definition Class_decl :: statement where
  "Class_decl = ClassDecl ''Class'' (Some ''Base'')
     [ Property ''variable'' False (TRef ''Value'') None,
       Property ''parent'' False (TRef ''Base'') None,
       Property ''body'' False (TRef ''Block'') None ]"

subsection \<open>Lines 294 to 324: import and export\<close>

definition ModuleDeclaration_decl :: statement where
  "ModuleDeclaration_decl = ClassDecl ''ModuleDeclaration'' (Some ''Base'')
     [ Property ''clause'' False (TRef ''ImportClause'') None,
       Property ''source'' False TString None ]"

definition ImportDeclaration_decl :: statement where
  "ImportDeclaration_decl = ClassDecl ''ImportDeclaration'' (Some ''ModuleDeclaration'') []"

definition ImportClause_decl :: statement where
  "ImportClause_decl = ClassDecl ''ImportClause'' (Some ''Base'')
     [ Property ''defaultBinding'' False (TRef ''Base'') None,
       Property ''namedImports'' False (TRef ''Base'') None ]"

definition ExportDeclaration_decl :: statement where
  "ExportDeclaration_decl = ClassDecl ''ExportDeclaration'' (Some ''ModuleDeclaration'') []"

definition ExportNamedDeclaration_decl :: statement where
  "ExportNamedDeclaration_decl = ClassDecl ''ExportNamedDeclaration'' (Some ''ExportDeclaration'') []"

definition ExportDefaultDeclaration_decl :: statement where
  "ExportDefaultDeclaration_decl = ClassDecl ''ExportDefaultDeclaration'' (Some ''ExportDeclaration'') []"

definition ExportAllDeclaration_decl :: statement where
  "ExportAllDeclaration_decl = ClassDecl ''ExportAllDeclaration'' (Some ''ExportDeclaration'') []"

definition ModuleSpecifierList_decl :: statement where
  "ModuleSpecifierList_decl = ClassDecl ''ModuleSpecifierList'' (Some ''Base'')
     [ Property ''specifiers'' False (TArray (TRef ''ModuleSpecifier'')) None ]"

definition ImportSpecifierList_decl :: statement where
  "ImportSpecifierList_decl = ClassDecl ''ImportSpecifierList'' (Some ''ModuleSpecifierList'') []"

definition ExportSpecifierList_decl :: statement where
  "ExportSpecifierList_decl = ClassDecl ''ExportSpecifierList'' (Some ''ModuleSpecifierList'') []"

definition ModuleSpecifier_decl :: statement where
  "ModuleSpecifier_decl = ClassDecl ''ModuleSpecifier'' (Some ''Base'')
     [ Property ''original'' False (TRef ''Base'') None,
       Property ''alias'' False (TRef ''Base'') None,
       Property ''identifier'' False TString None ]"

definition ImportSpecifier_decl :: statement where
  "ImportSpecifier_decl = ClassDecl ''ImportSpecifier'' (Some ''ModuleSpecifier'') []"

definition ImportDefaultSpecifier_decl :: statement where
  "ImportDefaultSpecifier_decl = ClassDecl ''ImportDefaultSpecifier'' (Some ''ImportSpecifier'') []"

definition ImportNamespaceSpecifier_decl :: statement where
  "ImportNamespaceSpecifier_decl = ClassDecl ''ImportNamespaceSpecifier'' (Some ''ImportSpecifier'') []"

definition ExportSpecifier_decl :: statement where
  "ExportSpecifier_decl = ClassDecl ''ExportSpecifier'' (Some ''ModuleSpecifier'') []"

subsection \<open>Lines 326 to 362: assignment, functions, parameters\<close>

definition Assign_decl :: statement where
  "Assign_decl = ClassDecl ''Assign'' (Some ''Base'')
     [ Property ''variable'' True (TRef ''Value'') None,
       Property ''value'' False (TUnion [TRef ''Value'', TRef ''Code'']) None,
       Property ''context'' False TString None,
       Property ''options'' False
         (TObject
            [ (''param'', False, TString),
              (''subpattern'', False, TString),
              (''operatorToken'', False, TString),
              (''moduleDeclaration'', False, TUnion [TStrLit ''import'', TStrLit ''export'']) ]) None ]"

definition FuncGlyph_decl :: statement where
  "FuncGlyph_decl = ClassDecl ''FuncGlyph'' (Some ''Base'')
     [ Property ''glyph'' False (TUnion [TStrLit ''->'', TStrLit ''=>'']) None ]"

definition Code_decl :: statement where
  "Code_decl = ClassDecl ''Code'' (Some ''Base'')
     [ Property ''params'' False (TArray (TRef ''Param'')) None,
       Property ''body'' False (TRef ''Block'') None,
       Property ''funcGlyph'' False (TRef ''FuncGlyph'') None,
       Property ''bound'' False TBoolean None,
       Property ''isGenerator'' False TBoolean None,
       Property ''isAsync'' False TBoolean None,
       Property ''isMethod'' False TBoolean None ]"

definition Param_decl :: statement where
  "Param_decl = ClassDecl ''Param'' (Some ''Base'')
     [ Property ''name'' False (TUnion [TRef ''Literal'', TRef ''Value'']) None,
       Property ''value'' True (TRef ''Value'') None,
       Property ''splat'' True (TRef ''Splat'') None ]"

definition Splat_decl :: statement where
  "Splat_decl = ClassDecl ''Splat'' (Some ''Base'')
     [ Property ''name'' False (TRef ''Literal'') None ]"

definition Expansion_decl :: statement where
  "Expansion_decl = ClassDecl ''Expansion'' (Some ''Base'') []"

subsection \<open>Lines 364 to 426: loops, operators, exceptions, conditionals, location data\<close>

definition While_decl :: statement where
  "While_decl = ClassDecl ''While'' (Some ''Base'')
     [ Property ''condition'' False (TRef ''Base'') None,
       Property ''guard'' False (TRef ''Base'') None,
       Property ''body'' False (TRef ''Block'') None ]"

definition Op_decl :: statement where
  "Op_decl = ClassDecl ''Op'' (Some ''Base'')
     [ Property ''first'' False TString None,
       Property ''sencond'' False TString None ]"

definition In_decl :: statement where
  "In_decl = ClassDecl ''In'' (Some ''Base'')
     [ Property ''object'' False (TRef ''Base'') None,
       Property ''array'' False (TRef ''Base'') None ]"

definition Try_decl :: statement where
  "Try_decl = ClassDecl ''Try'' (Some ''Base'')
     [ Property ''attempt'' False (TRef ''Block'') None,
       Property ''recovery'' False (TRef ''Block'') None,
       Property ''ensure'' False (TRef ''Block'') None ]"

definition Throw_decl :: statement where
  "Throw_decl = ClassDecl ''Throw'' (Some ''Base'')
     [ Property ''expression'' False (TRef ''Base'') None ]"

definition Existence_decl :: statement where
  "Existence_decl = ClassDecl ''Existence'' (Some ''Base'')
     [ Property ''expression'' False (TRef ''Base'') None ]"

definition Parens_decl :: statement where
  "Parens_decl = ClassDecl ''Parens'' (Some ''Base'')
     [ Property ''body'' False (TRef ''Base'') None ]"

definition StringWithInterpolations_decl :: statement where
  "StringWithInterpolations_decl = ClassDecl ''StringWithInterpolations'' (Some ''Base'')
     [ Property ''body'' False (TRef ''Base'') None ]"

definition For_decl :: statement where
  "For_decl = ClassDecl ''For'' (Some ''While'')
     [ Property ''body'' False (TRef ''Block'') None,
       Property ''source'' False (TRef ''Base'') None,
       Property ''guard'' False (TRef ''Base'') None,
       Property ''step'' False (TRef ''Base'') None ]"

definition Switch_decl :: statement where
  "Switch_decl = ClassDecl ''Switch'' (Some ''Base'')
     [ Property ''subject'' False (TRef ''Base'') None,
       Property ''cases'' False (TRef ''Base'') None,
       Property ''otherwise'' False (TRef ''Base'') None ]"

definition If_decl :: statement where
  "If_decl = ClassDecl ''If'' (Some ''Base'')
     [ Property ''condition'' False (TRef ''Base'') None,
       Property ''body'' False (TRef ''Block'') None,
       Property ''elseBody'' False (TRef ''Block'') None ]"

definition LocationData_decl :: statement where
  "LocationData_decl = InterfaceDecl ''LocationData''
     [ Property ''first_line'' False TNumber None,
       Property ''first_column'' False TNumber None,
       Property ''last_line'' False TNumber None,
       Property ''last_column'' False TNumber None ]"

subsection \<open>Lines 9 to 445: the namespace, the static interface, the modules\<close>

definition Nodes_body :: "statement list" where
  "Nodes_body =
     [AbstractO_decl, ChildKind_decl, CodeFragment_decl, Base_decl, HoistTarget_decl,
      Block_decl, Literal_decl, NumberLiteral_decl, InfinityLiteral_decl, NaNLiteral_decl,
      StringLiteral_decl, RegexLiteral_decl, PassthroughLiteral_decl, IdentifierLiteral_decl,
      CSXTag_decl, PropertyName_decl, StatementLiteral_decl, ThisLiteral_decl,
      UndefinedLiteral_decl, NullLiteral_decl, BooleanLiteral_decl, Return_decl,
      YieldReturn_decl, AwaitReturn_decl, Value_decl, HereComment_decl, LineComment_decl,
      Call_decl, DynamicImportCall_decl, SuperCall_decl, Super_decl,
      RegexWithInterpolations_decl, TaggedTemplateCall_decl, Extends_decl, Access_decl,
      Index_decl, Range_decl, Slice_decl, Obj_decl, Arr_decl, Class_decl,
      ModuleDeclaration_decl, ImportDeclaration_decl, ImportClause_decl,
      ExportDeclaration_decl, ExportNamedDeclaration_decl, ExportDefaultDeclaration_decl,
      ExportAllDeclaration_decl, ModuleSpecifierList_decl, ImportSpecifierList_decl,
      ExportSpecifierList_decl, ModuleSpecifier_decl, ImportSpecifier_decl,
      ImportDefaultSpecifier_decl, ImportNamespaceSpecifier_decl, ExportSpecifier_decl,
      Assign_decl, FuncGlyph_decl, Code_decl, Param_decl, Splat_decl, Expansion_decl,
      While_decl, Op_decl, In_decl, Try_decl, Throw_decl, Existence_decl, Parens_decl,
      StringWithInterpolations_decl, For_decl, Switch_decl, If_decl, LocationData_decl]"

definition CoffeeScriptStatic_decl :: statement where
  "CoffeeScriptStatic_decl = InterfaceDecl ''CoffeeScriptStatic''
     [ Method ''nodes'' [(''source'', False, TString), (''options'', True, TAny)]
         (TQual ''Nodes'' ''Block'') None ]"

definition source_file :: "toplevel list" where
  "source_file =
     [ Declare Scope_decl,
       Declare (NamespaceDecl ''Nodes'' Nodes_body),
       Plain CoffeeScriptStatic_decl,
       Declare (ModuleDecl ''coffeescript/lib/coffeescript/nodes'' ''Nodes''),
       Declare (ModuleDecl ''coffeescript/lib/coffeescript/scope'' ''Scope''),
       Declare (ModuleDecl ''coffeescript'' ''CoffeeScript''),
       Declare (ConstDecl ''CoffeeScript'' (TRef ''CoffeeScriptStatic'') None) ]"

section \<open>Reading the declarations\<close>

subsection \<open>Names and scopes\<close>

fun stmt_of :: "toplevel \<Rightarrow> statement" where
  "stmt_of (Declare s) = s"
| "stmt_of (Plain s) = s"

fun is_declare :: "toplevel \<Rightarrow> bool" where
  "is_declare (Declare s) = True"
| "is_declare (Plain s) = False"

definition globals :: "statement list" where
  "globals = map stmt_of source_file"

text \<open>
  The name a class, an interface or a type alias gives to a type; the other statements
  name no type.
\<close>

fun type_name :: "statement \<Rightarrow> string option" where
  "type_name (ClassDecl n p ms) = Some n"
| "type_name (InterfaceDecl n ms) = Some n"
| "type_name (AliasDecl n t) = Some n"
| "type_name (NamespaceDecl n b) = None"
| "type_name (ModuleDecl m x) = None"
| "type_name (ConstDecl n t i) = None"

fun find_type :: "string \<Rightarrow> statement list \<Rightarrow> statement option" where
  "find_type n [] = None"
| "find_type n (d # ds) = (if type_name d = Some n then Some d else find_type n ds)"

fun namespace_body :: "string \<Rightarrow> statement list \<Rightarrow> statement list" where
  "namespace_body ns [] = []"
| "namespace_body ns (NamespaceDecl n b # ds) = (if n = ns then b else namespace_body ns ds)"
| "namespace_body ns (d # ds) = namespace_body ns ds"

text \<open>
  All type names but one are written inside the namespace \<^verbatim>\<open>Nodes\<close>, where a name means
  the namespace's declaration of it and, when there is none, the file's (\<^verbatim>\<open>Scope\<close>).
  \<open>lookup_type\<close> resolves a name this way. The two names written at the top level
  resolve the same way: \<^verbatim>\<open>CoffeeScriptStatic\<close> is no name of the namespace, and
  \<^verbatim>\<open>Nodes.Block\<close> is looked up in the namespace by \<open>lookup_qual\<close>.
\<close>

definition lookup_type :: "string \<Rightarrow> statement option" where
  "lookup_type n =
     (case find_type n (namespace_body ''Nodes'' globals) of
        Some d \<Rightarrow> Some d
      | None \<Rightarrow> find_type n globals)"

definition lookup_qual :: "string \<Rightarrow> string \<Rightarrow> statement option" where
  "lookup_qual ns n = find_type n (namespace_body ns globals)"

subsection \<open>Modules\<close>

text \<open>
  What \<^verbatim>\<open>declare module 'm' { export = x; }\<close> exports is the top-level statement that
  binds \<open>x\<close>: a class, a namespace or a constant.
\<close>

fun module_export :: "string \<Rightarrow> statement list \<Rightarrow> string option" where
  "module_export m [] = None"
| "module_export m (ModuleDecl n x # ds) = (if n = m then Some x else module_export m ds)"
| "module_export m (d # ds) = module_export m ds"

fun binding_name :: "statement \<Rightarrow> string option" where
  "binding_name (ClassDecl n p ms) = Some n"
| "binding_name (NamespaceDecl n b) = Some n"
| "binding_name (ConstDecl n t i) = Some n"
| "binding_name d = None"

fun find_binding :: "string \<Rightarrow> statement list \<Rightarrow> statement option" where
  "find_binding x [] = None"
| "find_binding x (d # ds) = (if binding_name d = Some x then Some d else find_binding x ds)"

definition exported :: "string \<Rightarrow> statement option" where
  "exported m =
     (case module_export m globals of
        None \<Rightarrow> None
      | Some x \<Rightarrow> find_binding x globals)"

subsection \<open>Inheritance\<close>

fun extends_of :: "statement \<Rightarrow> string option" where
  "extends_of (ClassDecl n p ms) = p"
| "extends_of d = None"

fun members_of :: "statement \<Rightarrow> member list" where
  "members_of (ClassDecl n p ms) = ms"
| "members_of (InterfaceDecl n ms) = ms"
| "members_of d = []"

fun member_name :: "member \<Rightarrow> string" where
  "member_name (Property n opt t i) = n"
| "member_name (Method n ps r b) = n"

definition member_names :: "statement \<Rightarrow> string list" where
  "member_names d = map member_name (members_of d)"

definition declares :: "string \<Rightarrow> statement \<Rightarrow> bool" where
  "declares n d = (n \<in> set (member_names d))"

text \<open>
  A declaration followed by those of its superclasses, nearest first. The walk along
  \<^verbatim>\<open>extends\<close> is bounded by the number of statements of the file: a chain without a
  cycle cannot be longer.
\<close>

fun lineage_upto :: "nat \<Rightarrow> statement \<Rightarrow> statement list" where
  "lineage_upto 0 d = [d]"
| "lineage_upto (Suc k) d =
     d # (case extends_of d of
            None \<Rightarrow> []
          | Some p \<Rightarrow> (case lookup_type p of None \<Rightarrow> [] | Some e \<Rightarrow> lineage_upto k e))"

definition lineage :: "statement \<Rightarrow> statement list" where
  "lineage d = lineage_upto (length (namespace_body ''Nodes'' globals) + length globals) d"

definition supers :: "string \<Rightarrow> string list" where
  "supers c =
     (case lookup_type c of
        None \<Rightarrow> []
      | Some d \<Rightarrow> List.map_filter type_name (lineage d))"

text \<open>\<open>subclass_of c b\<close>: \<open>c\<close> is declared, and is \<open>b\<close> or extends it in some steps.\<close>

definition subclass_of :: "string \<Rightarrow> string \<Rightarrow> bool" where
  "subclass_of c b = (b \<in> set (supers c))"

text \<open>
  The members of a class: its own, then those of its superclasses that no nearer
  class declares again under the same name.
\<close>

definition inherit :: "statement \<Rightarrow> member list \<Rightarrow> member list" where
  "inherit d inherited =
     members_of d @ filter (\<lambda>m. \<not> declares (member_name m) d) inherited"

definition decl_members :: "statement \<Rightarrow> member list" where
  "decl_members d = foldr inherit (lineage d) []"

definition all_members :: "string \<Rightarrow> member list" where
  "all_members c = (case lookup_type c of None \<Rightarrow> [] | Some d \<Rightarrow> decl_members d)"

definition lookup_member :: "string \<Rightarrow> string \<Rightarrow> member option" where
  "lookup_member c n = find (\<lambda>m. member_name m = n) (all_members c)"

text \<open>The class, among a class and its superclasses, whose declaration of a member counts.\<close>

definition declared_in :: "string \<Rightarrow> string \<Rightarrow> string option" where
  "declared_in c n =
     (case lookup_type c of
        None \<Rightarrow> None
      | Some d \<Rightarrow>
          (case find (declares n) (lineage d) of
             None \<Rightarrow> None
           | Some e \<Rightarrow> type_name e))"

text \<open>
  The node classes: the classes of the namespace that are \<^verbatim>\<open>Base\<close> or extend it.
\<close>

fun class_name :: "statement \<Rightarrow> string option" where
  "class_name (ClassDecl n p ms) = Some n"
| "class_name d = None"

definition node_classes :: "string list" where
  "node_classes =
     filter (\<lambda>c. subclass_of c ''Base'')
       (List.map_filter class_name (namespace_body ''Nodes'' globals))"

text \<open>
  The names of the types that the file declares, in the order in which \<open>lookup_type\<close>
  searches them, and the statements that declare a type with members.
\<close>

definition declared_types :: "string list" where
  "declared_types = List.map_filter type_name (namespace_body ''Nodes'' globals @ globals)"

fun class_like :: "statement \<Rightarrow> bool" where
  "class_like (ClassDecl n p ms) = True"
| "class_like (InterfaceDecl n ms) = True"
| "class_like d = False"

subsection \<open>Implementations\<close>

text \<open>
  The members written anywhere in a statement, and the texts of the implementations in
  it: bodies of methods, initializers of properties and of constants.
\<close>

fun member_impl :: "member \<Rightarrow> string option" where
  "member_impl (Property n opt t i) = i"
| "member_impl (Method n ps r b) = b"

fun stmt_members :: "statement \<Rightarrow> member list" where
  "stmt_members (ClassDecl n p ms) = ms"
| "stmt_members (InterfaceDecl n ms) = ms"
| "stmt_members (NamespaceDecl n b) = concat (map stmt_members b)"
| "stmt_members d = []"

fun stmt_impls :: "statement \<Rightarrow> string list" where
  "stmt_impls (ClassDecl n p ms) = List.map_filter member_impl ms"
| "stmt_impls (InterfaceDecl n ms) = List.map_filter member_impl ms"
| "stmt_impls (NamespaceDecl n b) = concat (map stmt_impls b)"
| "stmt_impls (ConstDecl n t i) = (case i of None \<Rightarrow> [] | Some e \<Rightarrow> [e])"
| "stmt_impls d = []"

text \<open>
  The methods that are declared outside the classes. The statements of the file have no
  form for a function of its own, so these are the methods of the interfaces.
\<close>

fun is_method :: "member \<Rightarrow> bool" where
  "is_method (Method n ps r b) = True"
| "is_method (Property n opt t i) = False"

definition interface_methods :: "member list" where
  "interface_methods =
     filter is_method
       (concat (map members_of
          (filter (\<lambda>d. class_name d = None) (namespace_body ''Nodes'' globals @ globals))))"

definition file_members :: "member list" where
  "file_members = concat (map stmt_members globals)"

definition file_impls :: "string list" where
  "file_impls = concat (map stmt_impls globals)"

text \<open>
  A statement that can hold no implementation in TypeScript: one under \<^verbatim>\<open>declare\<close>, or
  an interface or a type alias.
\<close>

fun type_only :: "statement \<Rightarrow> bool" where
  "type_only (InterfaceDecl n ms) = True"
| "type_only (AliasDecl n t) = True"
| "type_only d = False"

definition ambient :: "toplevel \<Rightarrow> bool" where
  "ambient s = (is_declare s \<or> type_only (stmt_of s))"

section \<open>The values a declared type admits\<close>

text \<open>
  A declaration says what a caller can observe: what a method returns, what an
  instance carries. The file has no function to run, so such statements are read as
  statements about the values of a declared type. A JavaScript value is
  modelled as far as the declared types can tell values apart. Numbers are reals (the
  file never computes with them; NaN and the infinities are left out). An object is
  the list of its properties as a lookup finds them, the inherited methods included.
  A function is opaque and carries only a label.
\<close>

datatype jsval =
    VUndefined
  | VNull
  | VBool bool
  | VNum real
  | VStr string
  | VArr "jsval list"
  | VObj "(string \<times> jsval) list"
  | VFun string

text \<open>
  A method is a member whose type is a function type; a required parameter or member
  has the marker \<open>False\<close>.
\<close>

fun member_slot :: "member \<Rightarrow> slot" where
  "member_slot (Property n opt t i) = (n, opt, t)"
| "member_slot (Method n ps r b) = (n, False, TFunc ps r)"

text \<open>The number of names of declared types written in a type expression.\<close>

fun refs :: "ty \<Rightarrow> nat" where
  "refs (TRef n) = 1"
| "refs (TQual ns n) = 1"
| "refs (TArray t) = refs t"
| "refs (TUnion ts) = sum_list (map refs ts)"
| "refs (TObject ss) = sum_list (map (\<lambda>s. refs (snd (snd s))) ss)"
| "refs (TFunc ps r) = sum_list (map (\<lambda>s. refs (snd (snd s))) ps) + refs r"
| "refs t = 0"

text \<open>
  \<open>conforms v t\<close>: the value \<open>v\<close> is of type \<open>t\<close>, under TypeScript's strict null checks
  (\<^verbatim>\<open>null\<close> and \<^verbatim>\<open>undefined\<close> belong to their own types and to \<^verbatim>\<open>any\<close> only) and its
  structural typing (an object is of a class type when it has the members of the class,
  the inherited ones included, each of its declared type). An optional member may be
  missing or \<^verbatim>\<open>undefined\<close>. Of a function only the fact that it is one is checked: what
  it returns when called is not a property of the value that this model can see.
  \<open>instance_of v d\<close> is the same for the type that the statement \<open>d\<close> declares. An alias
  is unfolded when its body names no declared type, as is the case for the one alias
  of the file; a statement that declares no type has no instances.
\<close>

function conforms :: "jsval \<Rightarrow> ty \<Rightarrow> bool"
  and instance_of :: "jsval \<Rightarrow> statement \<Rightarrow> bool" where
  "conforms v TAny = True"
| "conforms v TString = (case v of VStr s \<Rightarrow> True | _ \<Rightarrow> False)"
| "conforms v TNumber = (case v of VNum x \<Rightarrow> True | _ \<Rightarrow> False)"
| "conforms v TBoolean = (case v of VBool b \<Rightarrow> True | _ \<Rightarrow> False)"
| "conforms v TVoid = (v = VUndefined)"
| "conforms v TNull = (v = VNull)"
| "conforms v TUndefined = (v = VUndefined)"
| "conforms v TTrue = (v = VBool True)"
| "conforms v (TStrLit s) = (v = VStr s)"
| "conforms v (TRef n) =
     (case lookup_type n of None \<Rightarrow> False | Some d \<Rightarrow> instance_of v d)"
| "conforms v (TQual ns n) =
     (case lookup_qual ns n of None \<Rightarrow> False | Some d \<Rightarrow> instance_of v d)"
| "conforms v (TArray t) =
     (case v of VArr ws \<Rightarrow> list_all (\<lambda>w. conforms w t) ws | _ \<Rightarrow> False)"
| "conforms v (TUnion ts) = list_ex (\<lambda>t. conforms v t) ts"
| "conforms v (TObject ss) =
     (case v of
        VObj fs \<Rightarrow>
          list_all
            (\<lambda>s. case map_of fs (fst s) of
                   None \<Rightarrow> fst (snd s)
                 | Some w \<Rightarrow> (fst (snd s) \<and> w = VUndefined) \<or> conforms w (snd (snd s)))
            ss
      | _ \<Rightarrow> False)"
| "conforms v (TFunc ps r) = (case v of VFun f \<Rightarrow> True | _ \<Rightarrow> False)"
| "instance_of v (AliasDecl a t) = (if refs t = 0 then conforms v t else False)"
| "instance_of v (ClassDecl n p ms) =
     (case v of
        VObj fs \<Rightarrow>
          list_all
            (\<lambda>s. case map_of fs (fst s) of
                   None \<Rightarrow> fst (snd s)
                 | Some w \<Rightarrow> (fst (snd s) \<and> w = VUndefined) \<or> conforms w (snd (snd s)))
            (map member_slot (decl_members (ClassDecl n p ms)))
      | _ \<Rightarrow> False)"
| "instance_of v (InterfaceDecl n ms) =
     (case v of
        VObj fs \<Rightarrow>
          list_all
            (\<lambda>s. case map_of fs (fst s) of
                   None \<Rightarrow> fst (snd s)
                 | Some w \<Rightarrow> (fst (snd s) \<and> w = VUndefined) \<or> conforms w (snd (snd s)))
            (map member_slot (decl_members (InterfaceDecl n ms)))
      | _ \<Rightarrow> False)"
| "instance_of v (NamespaceDecl n b) = False"
| "instance_of v (ModuleDecl m x) = False"
| "instance_of v (ConstDecl n t i) = False"
  by pat_completeness auto
termination
proof -
  let ?R = "measures
    [\<lambda>x. case x of Inl (v, t) \<Rightarrow> size v | Inr (v, d) \<Rightarrow> size v,
     \<lambda>x. case x of Inl (v, t) \<Rightarrow> 2 * refs t
                 | Inr (v, d) \<Rightarrow> (case d of AliasDecl a t \<Rightarrow> 1 | _ \<Rightarrow> 0),
     \<lambda>x. case x of Inl (v, t) \<Rightarrow> Suc (size t) | Inr (v, d) \<Rightarrow> 0]"
  have field: "size w < size (VObj fs)" if "map_of fs k = Some w" for fs k w
    using that by (induction fs) (auto split: if_splits)
  have elem: "size w < size (VArr ws)" if "w \<in> set ws" for w ws
    using that by (induction ws) auto
  have part: "refs t \<le> refs (TUnion ts) \<and> size t < size (TUnion ts)" if "t \<in> set ts" for t ts
    using that by (induction ts) auto
  show ?thesis
  proof (relation ?R)
    show "wf ?R" by simp
  next
    fix v :: jsval and n :: string and d :: statement assume "lookup_type n = Some d"
    show "(Inr (v, d), Inl (v, TRef n)) \<in> ?R" by (cases d) simp_all
  next
    fix v :: jsval and ns n :: string and d :: statement assume "lookup_qual ns n = Some d"
    show "(Inr (v, d), Inl (v, TQual ns n)) \<in> ?R" by (cases d) simp_all
  next
    fix v w :: jsval and t :: ty and ws assume "v = VArr ws" "w \<in> set ws"
    then show "(Inl (w, t), Inl (v, TArray t)) \<in> ?R" using elem [of w ws] by simp
  next
    fix v :: jsval and ts :: "ty list" and t assume "t \<in> set ts"
    then show "(Inl (v, t), Inl (v, TUnion ts)) \<in> ?R" using part [of t ts] by auto
  next
    fix v w :: jsval and ss :: "slot list" and fs and s :: slot assume "v = VObj fs" "map_of fs (fst s) = Some w"
    then show "(Inl (w, snd (snd s)), Inl (v, TObject ss)) \<in> ?R"
      using field [of fs "fst s" w] by simp
  next
    fix v :: jsval and a :: string and t :: ty assume "refs t = 0"
    then show "(Inl (v, t), Inr (v, AliasDecl a t)) \<in> ?R" by simp
  next
    fix v w :: jsval and n :: string and p :: "string option" and ms :: "member list"
      and fs and s :: slot assume "v = VObj fs" "map_of fs (fst s) = Some w"
    then show "(Inl (w, snd (snd s)), Inr (v, ClassDecl n p ms)) \<in> ?R"
      using field [of fs "fst s" w] by simp
  next
    fix v w :: jsval and n :: string and ms :: "member list" and fs and s :: slot assume "v = VObj fs" "map_of fs (fst s) = Some w"
    then show "(Inl (w, snd (snd s)), Inr (v, InterfaceDecl n ms)) \<in> ?R"
      using field [of fs "fst s" w] by simp
  qed
qed

text \<open>
  \<open>has_slot fs s\<close>: the object with the properties \<open>fs\<close> has the member \<open>s\<close>, as the two
  object cases of \<open>conforms\<close> and \<open>instance_of\<close> ask of each member.
\<close>

definition has_slot :: "(string \<times> jsval) list \<Rightarrow> slot \<Rightarrow> bool" where
  "has_slot fs s =
     (case map_of fs (fst s) of
        None \<Rightarrow> fst (snd s)
      | Some w \<Rightarrow> (fst (snd s) \<and> w = VUndefined) \<or> conforms w (snd (snd s)))"

subsection \<open>Calls\<close>

text \<open>
  The parameters and the result type that a class declares for a method, its own or
  inherited.
\<close>

definition params_of :: "string \<Rightarrow> string \<Rightarrow> slot list option" where
  "params_of c m =
     (case lookup_member c m of Some (Method n ps r b) \<Rightarrow> Some ps | _ \<Rightarrow> None)"

definition result_type :: "string \<Rightarrow> string \<Rightarrow> ty option" where
  "result_type c m =
     (case lookup_member c m of Some (Method n ps r b) \<Rightarrow> Some r | _ \<Rightarrow> None)"

text \<open>
  The arguments of a call are of the declared parameter types: one argument for each
  parameter in order, none in excess; an optional parameter may be left out at the end
  or passed \<^verbatim>\<open>undefined\<close>.
\<close>

fun args_ok :: "slot list \<Rightarrow> jsval list \<Rightarrow> bool" where
  "args_ok [] [] = True"
| "args_ok [] (a # as) = False"
| "args_ok (p # ps) [] = (fst (snd p) \<and> args_ok ps [])"
| "args_ok (p # ps) (a # as) =
     (((fst (snd p) \<and> a = VUndefined) \<or> conforms a (snd (snd p))) \<and> args_ok ps as)"

definition accepts :: "string \<Rightarrow> string \<Rightarrow> jsval list \<Rightarrow> bool" where
  "accepts c m as = (case params_of c m of None \<Rightarrow> False | Some ps \<Rightarrow> args_ok ps as)"

text \<open>
  \<open>may_return c m v\<close>: the declaration lets a call of the method \<open>m\<close> of \<open>c\<close> return \<open>v\<close>.
  The file defines no method, so this is all it says about any result.
\<close>

definition may_return :: "string \<Rightarrow> string \<Rightarrow> jsval \<Rightarrow> bool" where
  "may_return c m v = (case result_type c m of None \<Rightarrow> False | Some r \<Rightarrow> conforms v r)"

subsection \<open>Example values\<close>

text \<open>
  Concrete values on which the theorems below are tried: a source position, the
  properties of a bare node (a function for each method of \<^verbatim>\<open>Base\<close>), a node, and a
  block that holds it.
\<close>

definition example_location :: jsval where
  "example_location =
     VObj [(''first_line'', VNum 0), (''first_column'', VNum 0),
           (''last_line'', VNum 0), (''last_column'', VNum 4)]"

definition example_fields :: "(string \<times> jsval) list" where
  "example_fields =
     [(''children'', VArr [VStr ''expressions'']),
      (''compiledComments'', VArr []),
      (''locationData'', example_location),
      (''contains'', VFun ''contains''),
      (''lastNode'', VFun ''lastNode''),
      (''toString'', VFun ''toString''),
      (''eachChild'', VFun ''eachChild''),
      (''traverseChildren'', VFun ''traverseChildren''),
      (''replaceInContext'', VFun ''replaceInContext''),
      (''unwrapAll'', VFun ''unwrapAll''),
      (''isStatement'', VFun ''isStatement''),
      (''includeCommentFragments'', VFun ''includeCommentFragments''),
      (''jumps'', VFun ''jumps''),
      (''shouldCache'', VFun ''shouldCache''),
      (''isChainable'', VFun ''isChainable''),
      (''isAssignable'', VFun ''isAssignable''),
      (''isNumber'', VFun ''isNumber''),
      (''assigns'', VFun ''assigns''),
      (''joinFragmentArrays'', VFun ''joinFragmentArrays'')]"

definition example_node :: jsval where
  "example_node = VObj example_fields"

definition example_block :: jsval where
  "example_block = VObj ((''expressions'', VArr [example_node]) # example_fields)"

definition example_literal :: jsval where
  "example_literal = VObj ((''value'', VStr ''42'') # example_fields)"

definition example_op :: jsval where
  "example_op = VObj ((''first'', VStr ''a'') # (''sencond'', VStr ''b'') # example_fields)"

definition example_fragment :: jsval where
  "example_fragment =
     VObj [(''locationData'', example_location), (''toString'', VFun ''toString'')]"

definition example_scope :: jsval where
  "example_scope =
     VObj [(''variables'', VArr [VObj [(''name'', VStr ''x''), (''type'', VStr ''var'')]]),
           (''positions'', VObj [])]"

section \<open>Facts about the declarations\<close>

text \<open>
  What each declaration says, one equation for each declaration: the name, the
  superclass, the names of the members, the declaration that a name resolves to, the
  chain of superclasses. They are proved by unfolding one declaration at a time, and
  everything after them works with the names of the declarations.
\<close>

lemma globals_eq:
  "globals =
     [Scope_decl, NamespaceDecl ''Nodes'' Nodes_body, CoffeeScriptStatic_decl,
      ModuleDecl ''coffeescript/lib/coffeescript/nodes'' ''Nodes'',
      ModuleDecl ''coffeescript/lib/coffeescript/scope'' ''Scope'',
      ModuleDecl ''coffeescript'' ''CoffeeScript'',
      ConstDecl ''CoffeeScript'' (TRef ''CoffeeScriptStatic'') None]"
  by (simp add: globals_def source_file_def)

lemma nodes_namespace [simp]: "namespace_body ''Nodes'' globals = Nodes_body"
  by (simp add: globals_eq Scope_decl_def)

lemma find_type_globals [simp]:
  "find_type n globals =
     (if n = ''Scope'' then Some Scope_decl
      else if n = ''CoffeeScriptStatic'' then Some CoffeeScriptStatic_decl else None)"
  by (simp add: globals_eq Scope_decl_def CoffeeScriptStatic_decl_def)

lemma lineage_fuel: "lineage d = lineage_upto 81 d"
proof -
  have "length Nodes_body + length globals = 81"
    by (simp add: Nodes_body_def globals_eq)
  then show ?thesis
    by (simp only: lineage_def nodes_namespace)
qed

lemmas decl_defs =
  AbstractO_decl_def ChildKind_decl_def CodeFragment_decl_def Base_decl_def
  HoistTarget_decl_def Block_decl_def Literal_decl_def NumberLiteral_decl_def
  InfinityLiteral_decl_def NaNLiteral_decl_def StringLiteral_decl_def RegexLiteral_decl_def
  PassthroughLiteral_decl_def IdentifierLiteral_decl_def CSXTag_decl_def PropertyName_decl_def
  StatementLiteral_decl_def ThisLiteral_decl_def UndefinedLiteral_decl_def NullLiteral_decl_def
  BooleanLiteral_decl_def Return_decl_def YieldReturn_decl_def AwaitReturn_decl_def
  Value_decl_def HereComment_decl_def LineComment_decl_def Call_decl_def
  DynamicImportCall_decl_def SuperCall_decl_def Super_decl_def RegexWithInterpolations_decl_def
  TaggedTemplateCall_decl_def Extends_decl_def Access_decl_def Index_decl_def Range_decl_def
  Slice_decl_def Obj_decl_def Arr_decl_def Class_decl_def ModuleDeclaration_decl_def
  ImportDeclaration_decl_def ImportClause_decl_def ExportDeclaration_decl_def
  ExportNamedDeclaration_decl_def ExportDefaultDeclaration_decl_def
  ExportAllDeclaration_decl_def ModuleSpecifierList_decl_def ImportSpecifierList_decl_def
  ExportSpecifierList_decl_def ModuleSpecifier_decl_def ImportSpecifier_decl_def
  ImportDefaultSpecifier_decl_def ImportNamespaceSpecifier_decl_def ExportSpecifier_decl_def
  Assign_decl_def FuncGlyph_decl_def Code_decl_def Param_decl_def Splat_decl_def
  Expansion_decl_def While_decl_def Op_decl_def In_decl_def Try_decl_def Throw_decl_def
  Existence_decl_def Parens_decl_def StringWithInterpolations_decl_def For_decl_def
  Switch_decl_def If_decl_def LocationData_decl_def Scope_decl_def CoffeeScriptStatic_decl_def

lemma type_name_decl [simp]:
  "type_name AbstractO_decl = Some ''AbstractO''"
  "type_name ChildKind_decl = Some ''ChildKind''"
  "type_name CodeFragment_decl = Some ''CodeFragment''"
  "type_name Base_decl = Some ''Base''"
  "type_name HoistTarget_decl = Some ''HoistTarget''"
  "type_name Block_decl = Some ''Block''"
  "type_name Literal_decl = Some ''Literal''"
  "type_name NumberLiteral_decl = Some ''NumberLiteral''"
  "type_name InfinityLiteral_decl = Some ''InfinityLiteral''"
  "type_name NaNLiteral_decl = Some ''NaNLiteral''"
  "type_name StringLiteral_decl = Some ''StringLiteral''"
  "type_name RegexLiteral_decl = Some ''RegexLiteral''"
  "type_name PassthroughLiteral_decl = Some ''PassthroughLiteral''"
  "type_name IdentifierLiteral_decl = Some ''IdentifierLiteral''"
  "type_name CSXTag_decl = Some ''CSXTag''"
  "type_name PropertyName_decl = Some ''PropertyName''"
  "type_name StatementLiteral_decl = Some ''StatementLiteral''"
  "type_name ThisLiteral_decl = Some ''ThisLiteral''"
  "type_name UndefinedLiteral_decl = Some ''UndefinedLiteral''"
  "type_name NullLiteral_decl = Some ''NullLiteral''"
  "type_name BooleanLiteral_decl = Some ''BooleanLiteral''"
  "type_name Return_decl = Some ''Return''"
  "type_name YieldReturn_decl = Some ''YieldReturn''"
  "type_name AwaitReturn_decl = Some ''AwaitReturn''"
  "type_name Value_decl = Some ''Value''"
  "type_name HereComment_decl = Some ''HereComment''"
  "type_name LineComment_decl = Some ''LineComment''"
  "type_name Call_decl = Some ''Call''"
  "type_name DynamicImportCall_decl = Some ''DynamicImportCall''"
  "type_name SuperCall_decl = Some ''SuperCall''"
  "type_name Super_decl = Some ''Super''"
  "type_name RegexWithInterpolations_decl = Some ''RegexWithInterpolations''"
  "type_name TaggedTemplateCall_decl = Some ''TaggedTemplateCall''"
  "type_name Extends_decl = Some ''Extends''"
  "type_name Access_decl = Some ''Access''"
  "type_name Index_decl = Some ''Index''"
  "type_name Range_decl = Some ''Range''"
  "type_name Slice_decl = Some ''Slice''"
  "type_name Obj_decl = Some ''Obj''"
  "type_name Arr_decl = Some ''Arr''"
  "type_name Class_decl = Some ''Class''"
  "type_name ModuleDeclaration_decl = Some ''ModuleDeclaration''"
  "type_name ImportDeclaration_decl = Some ''ImportDeclaration''"
  "type_name ImportClause_decl = Some ''ImportClause''"
  "type_name ExportDeclaration_decl = Some ''ExportDeclaration''"
  "type_name ExportNamedDeclaration_decl = Some ''ExportNamedDeclaration''"
  "type_name ExportDefaultDeclaration_decl = Some ''ExportDefaultDeclaration''"
  "type_name ExportAllDeclaration_decl = Some ''ExportAllDeclaration''"
  "type_name ModuleSpecifierList_decl = Some ''ModuleSpecifierList''"
  "type_name ImportSpecifierList_decl = Some ''ImportSpecifierList''"
  "type_name ExportSpecifierList_decl = Some ''ExportSpecifierList''"
  "type_name ModuleSpecifier_decl = Some ''ModuleSpecifier''"
  "type_name ImportSpecifier_decl = Some ''ImportSpecifier''"
  "type_name ImportDefaultSpecifier_decl = Some ''ImportDefaultSpecifier''"
  "type_name ImportNamespaceSpecifier_decl = Some ''ImportNamespaceSpecifier''"
  "type_name ExportSpecifier_decl = Some ''ExportSpecifier''"
  "type_name Assign_decl = Some ''Assign''"
  "type_name FuncGlyph_decl = Some ''FuncGlyph''"
  "type_name Code_decl = Some ''Code''"
  "type_name Param_decl = Some ''Param''"
  "type_name Splat_decl = Some ''Splat''"
  "type_name Expansion_decl = Some ''Expansion''"
  "type_name While_decl = Some ''While''"
  "type_name Op_decl = Some ''Op''"
  "type_name In_decl = Some ''In''"
  "type_name Try_decl = Some ''Try''"
  "type_name Throw_decl = Some ''Throw''"
  "type_name Existence_decl = Some ''Existence''"
  "type_name Parens_decl = Some ''Parens''"
  "type_name StringWithInterpolations_decl = Some ''StringWithInterpolations''"
  "type_name For_decl = Some ''For''"
  "type_name Switch_decl = Some ''Switch''"
  "type_name If_decl = Some ''If''"
  "type_name LocationData_decl = Some ''LocationData''"
  "type_name Scope_decl = Some ''Scope''"
  "type_name CoffeeScriptStatic_decl = Some ''CoffeeScriptStatic''"
  by (simp_all add: decl_defs)

lemma extends_of_decl [simp]:
  "extends_of AbstractO_decl = None"
  "extends_of ChildKind_decl = None"
  "extends_of CodeFragment_decl = None"
  "extends_of Base_decl = None"
  "extends_of HoistTarget_decl = Some ''Base''"
  "extends_of Block_decl = Some ''Base''"
  "extends_of Literal_decl = Some ''Base''"
  "extends_of NumberLiteral_decl = Some ''Literal''"
  "extends_of InfinityLiteral_decl = Some ''NumberLiteral''"
  "extends_of NaNLiteral_decl = Some ''NumberLiteral''"
  "extends_of StringLiteral_decl = Some ''Literal''"
  "extends_of RegexLiteral_decl = Some ''Literal''"
  "extends_of PassthroughLiteral_decl = Some ''Literal''"
  "extends_of IdentifierLiteral_decl = Some ''Literal''"
  "extends_of CSXTag_decl = Some ''IdentifierLiteral''"
  "extends_of PropertyName_decl = Some ''Literal''"
  "extends_of StatementLiteral_decl = Some ''Literal''"
  "extends_of ThisLiteral_decl = Some ''Literal''"
  "extends_of UndefinedLiteral_decl = Some ''Literal''"
  "extends_of NullLiteral_decl = Some ''Literal''"
  "extends_of BooleanLiteral_decl = Some ''Literal''"
  "extends_of Return_decl = Some ''Base''"
  "extends_of YieldReturn_decl = Some ''Return''"
  "extends_of AwaitReturn_decl = Some ''Return''"
  "extends_of Value_decl = Some ''Base''"
  "extends_of HereComment_decl = Some ''Base''"
  "extends_of LineComment_decl = Some ''Base''"
  "extends_of Call_decl = Some ''Base''"
  "extends_of DynamicImportCall_decl = Some ''Call''"
  "extends_of SuperCall_decl = Some ''Call''"
  "extends_of Super_decl = Some ''Base''"
  "extends_of RegexWithInterpolations_decl = Some ''Call''"
  "extends_of TaggedTemplateCall_decl = Some ''Call''"
  "extends_of Extends_decl = Some ''Base''"
  "extends_of Access_decl = Some ''Base''"
  "extends_of Index_decl = Some ''Base''"
  "extends_of Range_decl = Some ''Base''"
  "extends_of Slice_decl = Some ''Base''"
  "extends_of Obj_decl = Some ''Base''"
  "extends_of Arr_decl = Some ''Base''"
  "extends_of Class_decl = Some ''Base''"
  "extends_of ModuleDeclaration_decl = Some ''Base''"
  "extends_of ImportDeclaration_decl = Some ''ModuleDeclaration''"
  "extends_of ImportClause_decl = Some ''Base''"
  "extends_of ExportDeclaration_decl = Some ''ModuleDeclaration''"
  "extends_of ExportNamedDeclaration_decl = Some ''ExportDeclaration''"
  "extends_of ExportDefaultDeclaration_decl = Some ''ExportDeclaration''"
  "extends_of ExportAllDeclaration_decl = Some ''ExportDeclaration''"
  "extends_of ModuleSpecifierList_decl = Some ''Base''"
  "extends_of ImportSpecifierList_decl = Some ''ModuleSpecifierList''"
  "extends_of ExportSpecifierList_decl = Some ''ModuleSpecifierList''"
  "extends_of ModuleSpecifier_decl = Some ''Base''"
  "extends_of ImportSpecifier_decl = Some ''ModuleSpecifier''"
  "extends_of ImportDefaultSpecifier_decl = Some ''ImportSpecifier''"
  "extends_of ImportNamespaceSpecifier_decl = Some ''ImportSpecifier''"
  "extends_of ExportSpecifier_decl = Some ''ModuleSpecifier''"
  "extends_of Assign_decl = Some ''Base''"
  "extends_of FuncGlyph_decl = Some ''Base''"
  "extends_of Code_decl = Some ''Base''"
  "extends_of Param_decl = Some ''Base''"
  "extends_of Splat_decl = Some ''Base''"
  "extends_of Expansion_decl = Some ''Base''"
  "extends_of While_decl = Some ''Base''"
  "extends_of Op_decl = Some ''Base''"
  "extends_of In_decl = Some ''Base''"
  "extends_of Try_decl = Some ''Base''"
  "extends_of Throw_decl = Some ''Base''"
  "extends_of Existence_decl = Some ''Base''"
  "extends_of Parens_decl = Some ''Base''"
  "extends_of StringWithInterpolations_decl = Some ''Base''"
  "extends_of For_decl = Some ''While''"
  "extends_of Switch_decl = Some ''Base''"
  "extends_of If_decl = Some ''Base''"
  "extends_of LocationData_decl = None"
  "extends_of Scope_decl = None"
  "extends_of CoffeeScriptStatic_decl = None"
  by (simp_all add: decl_defs)

lemma class_name_decl [simp]:
  "class_name AbstractO_decl = None"
  "class_name ChildKind_decl = None"
  "class_name CodeFragment_decl = Some ''CodeFragment''"
  "class_name Base_decl = Some ''Base''"
  "class_name HoistTarget_decl = Some ''HoistTarget''"
  "class_name Block_decl = Some ''Block''"
  "class_name Literal_decl = Some ''Literal''"
  "class_name NumberLiteral_decl = Some ''NumberLiteral''"
  "class_name InfinityLiteral_decl = Some ''InfinityLiteral''"
  "class_name NaNLiteral_decl = Some ''NaNLiteral''"
  "class_name StringLiteral_decl = Some ''StringLiteral''"
  "class_name RegexLiteral_decl = Some ''RegexLiteral''"
  "class_name PassthroughLiteral_decl = Some ''PassthroughLiteral''"
  "class_name IdentifierLiteral_decl = Some ''IdentifierLiteral''"
  "class_name CSXTag_decl = Some ''CSXTag''"
  "class_name PropertyName_decl = Some ''PropertyName''"
  "class_name StatementLiteral_decl = Some ''StatementLiteral''"
  "class_name ThisLiteral_decl = Some ''ThisLiteral''"
  "class_name UndefinedLiteral_decl = Some ''UndefinedLiteral''"
  "class_name NullLiteral_decl = Some ''NullLiteral''"
  "class_name BooleanLiteral_decl = Some ''BooleanLiteral''"
  "class_name Return_decl = Some ''Return''"
  "class_name YieldReturn_decl = Some ''YieldReturn''"
  "class_name AwaitReturn_decl = Some ''AwaitReturn''"
  "class_name Value_decl = Some ''Value''"
  "class_name HereComment_decl = Some ''HereComment''"
  "class_name LineComment_decl = Some ''LineComment''"
  "class_name Call_decl = Some ''Call''"
  "class_name DynamicImportCall_decl = Some ''DynamicImportCall''"
  "class_name SuperCall_decl = Some ''SuperCall''"
  "class_name Super_decl = Some ''Super''"
  "class_name RegexWithInterpolations_decl = Some ''RegexWithInterpolations''"
  "class_name TaggedTemplateCall_decl = Some ''TaggedTemplateCall''"
  "class_name Extends_decl = Some ''Extends''"
  "class_name Access_decl = Some ''Access''"
  "class_name Index_decl = Some ''Index''"
  "class_name Range_decl = Some ''Range''"
  "class_name Slice_decl = Some ''Slice''"
  "class_name Obj_decl = Some ''Obj''"
  "class_name Arr_decl = Some ''Arr''"
  "class_name Class_decl = Some ''Class''"
  "class_name ModuleDeclaration_decl = Some ''ModuleDeclaration''"
  "class_name ImportDeclaration_decl = Some ''ImportDeclaration''"
  "class_name ImportClause_decl = Some ''ImportClause''"
  "class_name ExportDeclaration_decl = Some ''ExportDeclaration''"
  "class_name ExportNamedDeclaration_decl = Some ''ExportNamedDeclaration''"
  "class_name ExportDefaultDeclaration_decl = Some ''ExportDefaultDeclaration''"
  "class_name ExportAllDeclaration_decl = Some ''ExportAllDeclaration''"
  "class_name ModuleSpecifierList_decl = Some ''ModuleSpecifierList''"
  "class_name ImportSpecifierList_decl = Some ''ImportSpecifierList''"
  "class_name ExportSpecifierList_decl = Some ''ExportSpecifierList''"
  "class_name ModuleSpecifier_decl = Some ''ModuleSpecifier''"
  "class_name ImportSpecifier_decl = Some ''ImportSpecifier''"
  "class_name ImportDefaultSpecifier_decl = Some ''ImportDefaultSpecifier''"
  "class_name ImportNamespaceSpecifier_decl = Some ''ImportNamespaceSpecifier''"
  "class_name ExportSpecifier_decl = Some ''ExportSpecifier''"
  "class_name Assign_decl = Some ''Assign''"
  "class_name FuncGlyph_decl = Some ''FuncGlyph''"
  "class_name Code_decl = Some ''Code''"
  "class_name Param_decl = Some ''Param''"
  "class_name Splat_decl = Some ''Splat''"
  "class_name Expansion_decl = Some ''Expansion''"
  "class_name While_decl = Some ''While''"
  "class_name Op_decl = Some ''Op''"
  "class_name In_decl = Some ''In''"
  "class_name Try_decl = Some ''Try''"
  "class_name Throw_decl = Some ''Throw''"
  "class_name Existence_decl = Some ''Existence''"
  "class_name Parens_decl = Some ''Parens''"
  "class_name StringWithInterpolations_decl = Some ''StringWithInterpolations''"
  "class_name For_decl = Some ''For''"
  "class_name Switch_decl = Some ''Switch''"
  "class_name If_decl = Some ''If''"
  "class_name LocationData_decl = None"
  "class_name Scope_decl = Some ''Scope''"
  "class_name CoffeeScriptStatic_decl = None"
  by (simp_all add: decl_defs)

lemma class_like_decl [simp]:
  "class_like AbstractO_decl = True"
  "class_like ChildKind_decl = False"
  "class_like CodeFragment_decl = True"
  "class_like Base_decl = True"
  "class_like HoistTarget_decl = True"
  "class_like Block_decl = True"
  "class_like Literal_decl = True"
  "class_like NumberLiteral_decl = True"
  "class_like InfinityLiteral_decl = True"
  "class_like NaNLiteral_decl = True"
  "class_like StringLiteral_decl = True"
  "class_like RegexLiteral_decl = True"
  "class_like PassthroughLiteral_decl = True"
  "class_like IdentifierLiteral_decl = True"
  "class_like CSXTag_decl = True"
  "class_like PropertyName_decl = True"
  "class_like StatementLiteral_decl = True"
  "class_like ThisLiteral_decl = True"
  "class_like UndefinedLiteral_decl = True"
  "class_like NullLiteral_decl = True"
  "class_like BooleanLiteral_decl = True"
  "class_like Return_decl = True"
  "class_like YieldReturn_decl = True"
  "class_like AwaitReturn_decl = True"
  "class_like Value_decl = True"
  "class_like HereComment_decl = True"
  "class_like LineComment_decl = True"
  "class_like Call_decl = True"
  "class_like DynamicImportCall_decl = True"
  "class_like SuperCall_decl = True"
  "class_like Super_decl = True"
  "class_like RegexWithInterpolations_decl = True"
  "class_like TaggedTemplateCall_decl = True"
  "class_like Extends_decl = True"
  "class_like Access_decl = True"
  "class_like Index_decl = True"
  "class_like Range_decl = True"
  "class_like Slice_decl = True"
  "class_like Obj_decl = True"
  "class_like Arr_decl = True"
  "class_like Class_decl = True"
  "class_like ModuleDeclaration_decl = True"
  "class_like ImportDeclaration_decl = True"
  "class_like ImportClause_decl = True"
  "class_like ExportDeclaration_decl = True"
  "class_like ExportNamedDeclaration_decl = True"
  "class_like ExportDefaultDeclaration_decl = True"
  "class_like ExportAllDeclaration_decl = True"
  "class_like ModuleSpecifierList_decl = True"
  "class_like ImportSpecifierList_decl = True"
  "class_like ExportSpecifierList_decl = True"
  "class_like ModuleSpecifier_decl = True"
  "class_like ImportSpecifier_decl = True"
  "class_like ImportDefaultSpecifier_decl = True"
  "class_like ImportNamespaceSpecifier_decl = True"
  "class_like ExportSpecifier_decl = True"
  "class_like Assign_decl = True"
  "class_like FuncGlyph_decl = True"
  "class_like Code_decl = True"
  "class_like Param_decl = True"
  "class_like Splat_decl = True"
  "class_like Expansion_decl = True"
  "class_like While_decl = True"
  "class_like Op_decl = True"
  "class_like In_decl = True"
  "class_like Try_decl = True"
  "class_like Throw_decl = True"
  "class_like Existence_decl = True"
  "class_like Parens_decl = True"
  "class_like StringWithInterpolations_decl = True"
  "class_like For_decl = True"
  "class_like Switch_decl = True"
  "class_like If_decl = True"
  "class_like LocationData_decl = True"
  "class_like Scope_decl = True"
  "class_like CoffeeScriptStatic_decl = True"
  by (simp_all add: decl_defs)

lemma member_names_decl [simp]:
  "member_names AbstractO_decl = [''index'', ''level'', ''indent'', ''sharedScope'', ''scope'']"
  "member_names ChildKind_decl = []"
  "member_names CodeFragment_decl = [''locationData'', ''toString'']"
  "member_names Base_decl = [''children'', ''compiledComments'', ''locationData'', ''contains'', ''lastNode'', ''toString'', ''eachChild'', ''traverseChildren'', ''replaceInContext'', ''unwrapAll'', ''isStatement'', ''includeCommentFragments'', ''jumps'', ''shouldCache'', ''isChainable'', ''isAssignable'', ''isNumber'', ''assigns'', ''joinFragmentArrays'']"
  "member_names HoistTarget_decl = [''isStatement'']"
  "member_names Block_decl = [''expressions'']"
  "member_names Literal_decl = [''value'']"
  "member_names NumberLiteral_decl = []"
  "member_names InfinityLiteral_decl = []"
  "member_names NaNLiteral_decl = []"
  "member_names StringLiteral_decl = []"
  "member_names RegexLiteral_decl = []"
  "member_names PassthroughLiteral_decl = []"
  "member_names IdentifierLiteral_decl = []"
  "member_names CSXTag_decl = []"
  "member_names PropertyName_decl = []"
  "member_names StatementLiteral_decl = []"
  "member_names ThisLiteral_decl = []"
  "member_names UndefinedLiteral_decl = []"
  "member_names NullLiteral_decl = []"
  "member_names BooleanLiteral_decl = []"
  "member_names Return_decl = [''expression'']"
  "member_names YieldReturn_decl = []"
  "member_names AwaitReturn_decl = []"
  "member_names Value_decl = [''base'', ''properties'', ''isDefaultValue'', ''shouldCache'', ''assigns'', ''jumps'', ''isAssignable'', ''isStatement'', ''hasProperties'', ''isArray'', ''isRange'', ''isNumber'', ''isString'', ''isRegex'', ''isUndefined'', ''isNull'', ''isBoolean'', ''isAtomic'', ''isNotCallable'', ''isObject'', ''isSplice'', ''looksStatic'']"
  "member_names HereComment_decl = [''content'', ''newLine'', ''unshift'']"
  "member_names LineComment_decl = [''content'', ''newLine'', ''unshift'']"
  "member_names Call_decl = [''variable'', ''args'', ''isNew'', ''csx'']"
  "member_names DynamicImportCall_decl = []"
  "member_names SuperCall_decl = []"
  "member_names Super_decl = [''ancestor'']"
  "member_names RegexWithInterpolations_decl = []"
  "member_names TaggedTemplateCall_decl = []"
  "member_names Extends_decl = [''child'', ''parent'']"
  "member_names Access_decl = [''name'']"
  "member_names Index_decl = [''index'']"
  "member_names Range_decl = [''from'', ''to'']"
  "member_names Slice_decl = [''range'']"
  "member_names Obj_decl = [''generated'', ''lhs'', ''objects'', ''properties'', ''hasSplat'']"
  "member_names Arr_decl = [''lhs'', ''objects'']"
  "member_names Class_decl = [''variable'', ''parent'', ''body'']"
  "member_names ModuleDeclaration_decl = [''clause'', ''source'']"
  "member_names ImportDeclaration_decl = []"
  "member_names ImportClause_decl = [''defaultBinding'', ''namedImports'']"
  "member_names ExportDeclaration_decl = []"
  "member_names ExportNamedDeclaration_decl = []"
  "member_names ExportDefaultDeclaration_decl = []"
  "member_names ExportAllDeclaration_decl = []"
  "member_names ModuleSpecifierList_decl = [''specifiers'']"
  "member_names ImportSpecifierList_decl = []"
  "member_names ExportSpecifierList_decl = []"
  "member_names ModuleSpecifier_decl = [''original'', ''alias'', ''identifier'']"
  "member_names ImportSpecifier_decl = []"
  "member_names ImportDefaultSpecifier_decl = []"
  "member_names ImportNamespaceSpecifier_decl = []"
  "member_names ExportSpecifier_decl = []"
  "member_names Assign_decl = [''variable'', ''value'', ''context'', ''options'']"
  "member_names FuncGlyph_decl = [''glyph'']"
  "member_names Code_decl = [''params'', ''body'', ''funcGlyph'', ''bound'', ''isGenerator'', ''isAsync'', ''isMethod'']"
  "member_names Param_decl = [''name'', ''value'', ''splat'']"
  "member_names Splat_decl = [''name'']"
  "member_names Expansion_decl = []"
  "member_names While_decl = [''condition'', ''guard'', ''body'']"
  "member_names Op_decl = [''first'', ''sencond'']"
  "member_names In_decl = [''object'', ''array'']"
  "member_names Try_decl = [''attempt'', ''recovery'', ''ensure'']"
  "member_names Throw_decl = [''expression'']"
  "member_names Existence_decl = [''expression'']"
  "member_names Parens_decl = [''body'']"
  "member_names StringWithInterpolations_decl = [''body'']"
  "member_names For_decl = [''body'', ''source'', ''guard'', ''step'']"
  "member_names Switch_decl = [''subject'', ''cases'', ''otherwise'']"
  "member_names If_decl = [''condition'', ''body'', ''elseBody'']"
  "member_names LocationData_decl = [''first_line'', ''first_column'', ''last_line'', ''last_column'']"
  "member_names Scope_decl = [''variables'', ''positions'', ''utilities'']"
  "member_names CoffeeScriptStatic_decl = [''nodes'']"
  by (simp_all add: member_names_def decl_defs)

lemma lookup_type_decl [simp]:
  "lookup_type ''AbstractO'' = Some AbstractO_decl"
  "lookup_type ''ChildKind'' = Some ChildKind_decl"
  "lookup_type ''CodeFragment'' = Some CodeFragment_decl"
  "lookup_type ''Base'' = Some Base_decl"
  "lookup_type ''HoistTarget'' = Some HoistTarget_decl"
  "lookup_type ''Block'' = Some Block_decl"
  "lookup_type ''Literal'' = Some Literal_decl"
  "lookup_type ''NumberLiteral'' = Some NumberLiteral_decl"
  "lookup_type ''InfinityLiteral'' = Some InfinityLiteral_decl"
  "lookup_type ''NaNLiteral'' = Some NaNLiteral_decl"
  "lookup_type ''StringLiteral'' = Some StringLiteral_decl"
  "lookup_type ''RegexLiteral'' = Some RegexLiteral_decl"
  "lookup_type ''PassthroughLiteral'' = Some PassthroughLiteral_decl"
  "lookup_type ''IdentifierLiteral'' = Some IdentifierLiteral_decl"
  "lookup_type ''CSXTag'' = Some CSXTag_decl"
  "lookup_type ''PropertyName'' = Some PropertyName_decl"
  "lookup_type ''StatementLiteral'' = Some StatementLiteral_decl"
  "lookup_type ''ThisLiteral'' = Some ThisLiteral_decl"
  "lookup_type ''UndefinedLiteral'' = Some UndefinedLiteral_decl"
  "lookup_type ''NullLiteral'' = Some NullLiteral_decl"
  "lookup_type ''BooleanLiteral'' = Some BooleanLiteral_decl"
  "lookup_type ''Return'' = Some Return_decl"
  "lookup_type ''YieldReturn'' = Some YieldReturn_decl"
  "lookup_type ''AwaitReturn'' = Some AwaitReturn_decl"
  "lookup_type ''Value'' = Some Value_decl"
  "lookup_type ''HereComment'' = Some HereComment_decl"
  "lookup_type ''LineComment'' = Some LineComment_decl"
  "lookup_type ''Call'' = Some Call_decl"
  "lookup_type ''DynamicImportCall'' = Some DynamicImportCall_decl"
  "lookup_type ''SuperCall'' = Some SuperCall_decl"
  "lookup_type ''Super'' = Some Super_decl"
  "lookup_type ''RegexWithInterpolations'' = Some RegexWithInterpolations_decl"
  "lookup_type ''TaggedTemplateCall'' = Some TaggedTemplateCall_decl"
  "lookup_type ''Extends'' = Some Extends_decl"
  "lookup_type ''Access'' = Some Access_decl"
  "lookup_type ''Index'' = Some Index_decl"
  "lookup_type ''Range'' = Some Range_decl"
  "lookup_type ''Slice'' = Some Slice_decl"
  "lookup_type ''Obj'' = Some Obj_decl"
  "lookup_type ''Arr'' = Some Arr_decl"
  "lookup_type ''Class'' = Some Class_decl"
  "lookup_type ''ModuleDeclaration'' = Some ModuleDeclaration_decl"
  "lookup_type ''ImportDeclaration'' = Some ImportDeclaration_decl"
  "lookup_type ''ImportClause'' = Some ImportClause_decl"
  "lookup_type ''ExportDeclaration'' = Some ExportDeclaration_decl"
  "lookup_type ''ExportNamedDeclaration'' = Some ExportNamedDeclaration_decl"
  "lookup_type ''ExportDefaultDeclaration'' = Some ExportDefaultDeclaration_decl"
  "lookup_type ''ExportAllDeclaration'' = Some ExportAllDeclaration_decl"
  "lookup_type ''ModuleSpecifierList'' = Some ModuleSpecifierList_decl"
  "lookup_type ''ImportSpecifierList'' = Some ImportSpecifierList_decl"
  "lookup_type ''ExportSpecifierList'' = Some ExportSpecifierList_decl"
  "lookup_type ''ModuleSpecifier'' = Some ModuleSpecifier_decl"
  "lookup_type ''ImportSpecifier'' = Some ImportSpecifier_decl"
  "lookup_type ''ImportDefaultSpecifier'' = Some ImportDefaultSpecifier_decl"
  "lookup_type ''ImportNamespaceSpecifier'' = Some ImportNamespaceSpecifier_decl"
  "lookup_type ''ExportSpecifier'' = Some ExportSpecifier_decl"
  "lookup_type ''Assign'' = Some Assign_decl"
  "lookup_type ''FuncGlyph'' = Some FuncGlyph_decl"
  "lookup_type ''Code'' = Some Code_decl"
  "lookup_type ''Param'' = Some Param_decl"
  "lookup_type ''Splat'' = Some Splat_decl"
  "lookup_type ''Expansion'' = Some Expansion_decl"
  "lookup_type ''While'' = Some While_decl"
  "lookup_type ''Op'' = Some Op_decl"
  "lookup_type ''In'' = Some In_decl"
  "lookup_type ''Try'' = Some Try_decl"
  "lookup_type ''Throw'' = Some Throw_decl"
  "lookup_type ''Existence'' = Some Existence_decl"
  "lookup_type ''Parens'' = Some Parens_decl"
  "lookup_type ''StringWithInterpolations'' = Some StringWithInterpolations_decl"
  "lookup_type ''For'' = Some For_decl"
  "lookup_type ''Switch'' = Some Switch_decl"
  "lookup_type ''If'' = Some If_decl"
  "lookup_type ''LocationData'' = Some LocationData_decl"
  "lookup_type ''Scope'' = Some Scope_decl"
  "lookup_type ''CoffeeScriptStatic'' = Some CoffeeScriptStatic_decl"
  by (simp_all add: lookup_type_def Nodes_body_def)

lemma lineage_decl [simp]:
  "lineage AbstractO_decl = [AbstractO_decl]"
  "lineage ChildKind_decl = [ChildKind_decl]"
  "lineage CodeFragment_decl = [CodeFragment_decl]"
  "lineage Base_decl = [Base_decl]"
  "lineage HoistTarget_decl = [HoistTarget_decl, Base_decl]"
  "lineage Block_decl = [Block_decl, Base_decl]"
  "lineage Literal_decl = [Literal_decl, Base_decl]"
  "lineage NumberLiteral_decl = [NumberLiteral_decl, Literal_decl, Base_decl]"
  "lineage InfinityLiteral_decl = [InfinityLiteral_decl, NumberLiteral_decl, Literal_decl, Base_decl]"
  "lineage NaNLiteral_decl = [NaNLiteral_decl, NumberLiteral_decl, Literal_decl, Base_decl]"
  "lineage StringLiteral_decl = [StringLiteral_decl, Literal_decl, Base_decl]"
  "lineage RegexLiteral_decl = [RegexLiteral_decl, Literal_decl, Base_decl]"
  "lineage PassthroughLiteral_decl = [PassthroughLiteral_decl, Literal_decl, Base_decl]"
  "lineage IdentifierLiteral_decl = [IdentifierLiteral_decl, Literal_decl, Base_decl]"
  "lineage CSXTag_decl = [CSXTag_decl, IdentifierLiteral_decl, Literal_decl, Base_decl]"
  "lineage PropertyName_decl = [PropertyName_decl, Literal_decl, Base_decl]"
  "lineage StatementLiteral_decl = [StatementLiteral_decl, Literal_decl, Base_decl]"
  "lineage ThisLiteral_decl = [ThisLiteral_decl, Literal_decl, Base_decl]"
  "lineage UndefinedLiteral_decl = [UndefinedLiteral_decl, Literal_decl, Base_decl]"
  "lineage NullLiteral_decl = [NullLiteral_decl, Literal_decl, Base_decl]"
  "lineage BooleanLiteral_decl = [BooleanLiteral_decl, Literal_decl, Base_decl]"
  "lineage Return_decl = [Return_decl, Base_decl]"
  "lineage YieldReturn_decl = [YieldReturn_decl, Return_decl, Base_decl]"
  "lineage AwaitReturn_decl = [AwaitReturn_decl, Return_decl, Base_decl]"
  "lineage Value_decl = [Value_decl, Base_decl]"
  "lineage HereComment_decl = [HereComment_decl, Base_decl]"
  "lineage LineComment_decl = [LineComment_decl, Base_decl]"
  "lineage Call_decl = [Call_decl, Base_decl]"
  "lineage DynamicImportCall_decl = [DynamicImportCall_decl, Call_decl, Base_decl]"
  "lineage SuperCall_decl = [SuperCall_decl, Call_decl, Base_decl]"
  "lineage Super_decl = [Super_decl, Base_decl]"
  "lineage RegexWithInterpolations_decl = [RegexWithInterpolations_decl, Call_decl, Base_decl]"
  "lineage TaggedTemplateCall_decl = [TaggedTemplateCall_decl, Call_decl, Base_decl]"
  "lineage Extends_decl = [Extends_decl, Base_decl]"
  "lineage Access_decl = [Access_decl, Base_decl]"
  "lineage Index_decl = [Index_decl, Base_decl]"
  "lineage Range_decl = [Range_decl, Base_decl]"
  "lineage Slice_decl = [Slice_decl, Base_decl]"
  "lineage Obj_decl = [Obj_decl, Base_decl]"
  "lineage Arr_decl = [Arr_decl, Base_decl]"
  "lineage Class_decl = [Class_decl, Base_decl]"
  "lineage ModuleDeclaration_decl = [ModuleDeclaration_decl, Base_decl]"
  "lineage ImportDeclaration_decl = [ImportDeclaration_decl, ModuleDeclaration_decl, Base_decl]"
  "lineage ImportClause_decl = [ImportClause_decl, Base_decl]"
  "lineage ExportDeclaration_decl = [ExportDeclaration_decl, ModuleDeclaration_decl, Base_decl]"
  "lineage ExportNamedDeclaration_decl = [ExportNamedDeclaration_decl, ExportDeclaration_decl, ModuleDeclaration_decl, Base_decl]"
  "lineage ExportDefaultDeclaration_decl = [ExportDefaultDeclaration_decl, ExportDeclaration_decl, ModuleDeclaration_decl, Base_decl]"
  "lineage ExportAllDeclaration_decl = [ExportAllDeclaration_decl, ExportDeclaration_decl, ModuleDeclaration_decl, Base_decl]"
  "lineage ModuleSpecifierList_decl = [ModuleSpecifierList_decl, Base_decl]"
  "lineage ImportSpecifierList_decl = [ImportSpecifierList_decl, ModuleSpecifierList_decl, Base_decl]"
  "lineage ExportSpecifierList_decl = [ExportSpecifierList_decl, ModuleSpecifierList_decl, Base_decl]"
  "lineage ModuleSpecifier_decl = [ModuleSpecifier_decl, Base_decl]"
  "lineage ImportSpecifier_decl = [ImportSpecifier_decl, ModuleSpecifier_decl, Base_decl]"
  "lineage ImportDefaultSpecifier_decl = [ImportDefaultSpecifier_decl, ImportSpecifier_decl, ModuleSpecifier_decl, Base_decl]"
  "lineage ImportNamespaceSpecifier_decl = [ImportNamespaceSpecifier_decl, ImportSpecifier_decl, ModuleSpecifier_decl, Base_decl]"
  "lineage ExportSpecifier_decl = [ExportSpecifier_decl, ModuleSpecifier_decl, Base_decl]"
  "lineage Assign_decl = [Assign_decl, Base_decl]"
  "lineage FuncGlyph_decl = [FuncGlyph_decl, Base_decl]"
  "lineage Code_decl = [Code_decl, Base_decl]"
  "lineage Param_decl = [Param_decl, Base_decl]"
  "lineage Splat_decl = [Splat_decl, Base_decl]"
  "lineage Expansion_decl = [Expansion_decl, Base_decl]"
  "lineage While_decl = [While_decl, Base_decl]"
  "lineage Op_decl = [Op_decl, Base_decl]"
  "lineage In_decl = [In_decl, Base_decl]"
  "lineage Try_decl = [Try_decl, Base_decl]"
  "lineage Throw_decl = [Throw_decl, Base_decl]"
  "lineage Existence_decl = [Existence_decl, Base_decl]"
  "lineage Parens_decl = [Parens_decl, Base_decl]"
  "lineage StringWithInterpolations_decl = [StringWithInterpolations_decl, Base_decl]"
  "lineage For_decl = [For_decl, While_decl, Base_decl]"
  "lineage Switch_decl = [Switch_decl, Base_decl]"
  "lineage If_decl = [If_decl, Base_decl]"
  "lineage LocationData_decl = [LocationData_decl]"
  "lineage Scope_decl = [Scope_decl]"
  "lineage CoffeeScriptStatic_decl = [CoffeeScriptStatic_decl]"
  by (simp_all add: lineage_fuel eval_nat_numeral)

lemma supers_decl [simp]:
  "supers ''AbstractO'' = [''AbstractO'']"
  "supers ''ChildKind'' = [''ChildKind'']"
  "supers ''CodeFragment'' = [''CodeFragment'']"
  "supers ''Base'' = [''Base'']"
  "supers ''HoistTarget'' = [''HoistTarget'', ''Base'']"
  "supers ''Block'' = [''Block'', ''Base'']"
  "supers ''Literal'' = [''Literal'', ''Base'']"
  "supers ''NumberLiteral'' = [''NumberLiteral'', ''Literal'', ''Base'']"
  "supers ''InfinityLiteral'' = [''InfinityLiteral'', ''NumberLiteral'', ''Literal'', ''Base'']"
  "supers ''NaNLiteral'' = [''NaNLiteral'', ''NumberLiteral'', ''Literal'', ''Base'']"
  "supers ''StringLiteral'' = [''StringLiteral'', ''Literal'', ''Base'']"
  "supers ''RegexLiteral'' = [''RegexLiteral'', ''Literal'', ''Base'']"
  "supers ''PassthroughLiteral'' = [''PassthroughLiteral'', ''Literal'', ''Base'']"
  "supers ''IdentifierLiteral'' = [''IdentifierLiteral'', ''Literal'', ''Base'']"
  "supers ''CSXTag'' = [''CSXTag'', ''IdentifierLiteral'', ''Literal'', ''Base'']"
  "supers ''PropertyName'' = [''PropertyName'', ''Literal'', ''Base'']"
  "supers ''StatementLiteral'' = [''StatementLiteral'', ''Literal'', ''Base'']"
  "supers ''ThisLiteral'' = [''ThisLiteral'', ''Literal'', ''Base'']"
  "supers ''UndefinedLiteral'' = [''UndefinedLiteral'', ''Literal'', ''Base'']"
  "supers ''NullLiteral'' = [''NullLiteral'', ''Literal'', ''Base'']"
  "supers ''BooleanLiteral'' = [''BooleanLiteral'', ''Literal'', ''Base'']"
  "supers ''Return'' = [''Return'', ''Base'']"
  "supers ''YieldReturn'' = [''YieldReturn'', ''Return'', ''Base'']"
  "supers ''AwaitReturn'' = [''AwaitReturn'', ''Return'', ''Base'']"
  "supers ''Value'' = [''Value'', ''Base'']"
  "supers ''HereComment'' = [''HereComment'', ''Base'']"
  "supers ''LineComment'' = [''LineComment'', ''Base'']"
  "supers ''Call'' = [''Call'', ''Base'']"
  "supers ''DynamicImportCall'' = [''DynamicImportCall'', ''Call'', ''Base'']"
  "supers ''SuperCall'' = [''SuperCall'', ''Call'', ''Base'']"
  "supers ''Super'' = [''Super'', ''Base'']"
  "supers ''RegexWithInterpolations'' = [''RegexWithInterpolations'', ''Call'', ''Base'']"
  "supers ''TaggedTemplateCall'' = [''TaggedTemplateCall'', ''Call'', ''Base'']"
  "supers ''Extends'' = [''Extends'', ''Base'']"
  "supers ''Access'' = [''Access'', ''Base'']"
  "supers ''Index'' = [''Index'', ''Base'']"
  "supers ''Range'' = [''Range'', ''Base'']"
  "supers ''Slice'' = [''Slice'', ''Base'']"
  "supers ''Obj'' = [''Obj'', ''Base'']"
  "supers ''Arr'' = [''Arr'', ''Base'']"
  "supers ''Class'' = [''Class'', ''Base'']"
  "supers ''ModuleDeclaration'' = [''ModuleDeclaration'', ''Base'']"
  "supers ''ImportDeclaration'' = [''ImportDeclaration'', ''ModuleDeclaration'', ''Base'']"
  "supers ''ImportClause'' = [''ImportClause'', ''Base'']"
  "supers ''ExportDeclaration'' = [''ExportDeclaration'', ''ModuleDeclaration'', ''Base'']"
  "supers ''ExportNamedDeclaration'' = [''ExportNamedDeclaration'', ''ExportDeclaration'', ''ModuleDeclaration'', ''Base'']"
  "supers ''ExportDefaultDeclaration'' = [''ExportDefaultDeclaration'', ''ExportDeclaration'', ''ModuleDeclaration'', ''Base'']"
  "supers ''ExportAllDeclaration'' = [''ExportAllDeclaration'', ''ExportDeclaration'', ''ModuleDeclaration'', ''Base'']"
  "supers ''ModuleSpecifierList'' = [''ModuleSpecifierList'', ''Base'']"
  "supers ''ImportSpecifierList'' = [''ImportSpecifierList'', ''ModuleSpecifierList'', ''Base'']"
  "supers ''ExportSpecifierList'' = [''ExportSpecifierList'', ''ModuleSpecifierList'', ''Base'']"
  "supers ''ModuleSpecifier'' = [''ModuleSpecifier'', ''Base'']"
  "supers ''ImportSpecifier'' = [''ImportSpecifier'', ''ModuleSpecifier'', ''Base'']"
  "supers ''ImportDefaultSpecifier'' = [''ImportDefaultSpecifier'', ''ImportSpecifier'', ''ModuleSpecifier'', ''Base'']"
  "supers ''ImportNamespaceSpecifier'' = [''ImportNamespaceSpecifier'', ''ImportSpecifier'', ''ModuleSpecifier'', ''Base'']"
  "supers ''ExportSpecifier'' = [''ExportSpecifier'', ''ModuleSpecifier'', ''Base'']"
  "supers ''Assign'' = [''Assign'', ''Base'']"
  "supers ''FuncGlyph'' = [''FuncGlyph'', ''Base'']"
  "supers ''Code'' = [''Code'', ''Base'']"
  "supers ''Param'' = [''Param'', ''Base'']"
  "supers ''Splat'' = [''Splat'', ''Base'']"
  "supers ''Expansion'' = [''Expansion'', ''Base'']"
  "supers ''While'' = [''While'', ''Base'']"
  "supers ''Op'' = [''Op'', ''Base'']"
  "supers ''In'' = [''In'', ''Base'']"
  "supers ''Try'' = [''Try'', ''Base'']"
  "supers ''Throw'' = [''Throw'', ''Base'']"
  "supers ''Existence'' = [''Existence'', ''Base'']"
  "supers ''Parens'' = [''Parens'', ''Base'']"
  "supers ''StringWithInterpolations'' = [''StringWithInterpolations'', ''Base'']"
  "supers ''For'' = [''For'', ''While'', ''Base'']"
  "supers ''Switch'' = [''Switch'', ''Base'']"
  "supers ''If'' = [''If'', ''Base'']"
  "supers ''LocationData'' = [''LocationData'']"
  "supers ''Scope'' = [''Scope'']"
  "supers ''CoffeeScriptStatic'' = [''CoffeeScriptStatic'']"
  by (simp_all add: supers_def List.map_filter_simps)

lemma declared_types_eq:
  "declared_types =
     [''AbstractO'', ''ChildKind'', ''CodeFragment'', ''Base'', ''HoistTarget'', ''Block'',
      ''Literal'', ''NumberLiteral'', ''InfinityLiteral'', ''NaNLiteral'', ''StringLiteral'',
      ''RegexLiteral'', ''PassthroughLiteral'', ''IdentifierLiteral'', ''CSXTag'',
      ''PropertyName'', ''StatementLiteral'', ''ThisLiteral'', ''UndefinedLiteral'',
      ''NullLiteral'', ''BooleanLiteral'', ''Return'', ''YieldReturn'', ''AwaitReturn'',
      ''Value'', ''HereComment'', ''LineComment'', ''Call'', ''DynamicImportCall'',
      ''SuperCall'', ''Super'', ''RegexWithInterpolations'', ''TaggedTemplateCall'',
      ''Extends'', ''Access'', ''Index'', ''Range'', ''Slice'', ''Obj'', ''Arr'', ''Class'',
      ''ModuleDeclaration'', ''ImportDeclaration'', ''ImportClause'', ''ExportDeclaration'',
      ''ExportNamedDeclaration'', ''ExportDefaultDeclaration'', ''ExportAllDeclaration'',
      ''ModuleSpecifierList'', ''ImportSpecifierList'', ''ExportSpecifierList'',
      ''ModuleSpecifier'', ''ImportSpecifier'', ''ImportDefaultSpecifier'',
      ''ImportNamespaceSpecifier'', ''ExportSpecifier'', ''Assign'', ''FuncGlyph'', ''Code'',
      ''Param'', ''Splat'', ''Expansion'', ''While'', ''Op'', ''In'', ''Try'', ''Throw'',
      ''Existence'', ''Parens'', ''StringWithInterpolations'', ''For'', ''Switch'', ''If'',
      ''LocationData'', ''Scope'', ''CoffeeScriptStatic'']"
  unfolding declared_types_def nodes_namespace
  by (simp add: Nodes_body_def globals_eq List.map_filter_simps)

lemma subclass_Base_decl [simp]:
  "subclass_of ''AbstractO'' ''Base'' = False"
  "subclass_of ''ChildKind'' ''Base'' = False"
  "subclass_of ''CodeFragment'' ''Base'' = False"
  "subclass_of ''Base'' ''Base'' = True"
  "subclass_of ''HoistTarget'' ''Base'' = True"
  "subclass_of ''Block'' ''Base'' = True"
  "subclass_of ''Literal'' ''Base'' = True"
  "subclass_of ''NumberLiteral'' ''Base'' = True"
  "subclass_of ''InfinityLiteral'' ''Base'' = True"
  "subclass_of ''NaNLiteral'' ''Base'' = True"
  "subclass_of ''StringLiteral'' ''Base'' = True"
  "subclass_of ''RegexLiteral'' ''Base'' = True"
  "subclass_of ''PassthroughLiteral'' ''Base'' = True"
  "subclass_of ''IdentifierLiteral'' ''Base'' = True"
  "subclass_of ''CSXTag'' ''Base'' = True"
  "subclass_of ''PropertyName'' ''Base'' = True"
  "subclass_of ''StatementLiteral'' ''Base'' = True"
  "subclass_of ''ThisLiteral'' ''Base'' = True"
  "subclass_of ''UndefinedLiteral'' ''Base'' = True"
  "subclass_of ''NullLiteral'' ''Base'' = True"
  "subclass_of ''BooleanLiteral'' ''Base'' = True"
  "subclass_of ''Return'' ''Base'' = True"
  "subclass_of ''YieldReturn'' ''Base'' = True"
  "subclass_of ''AwaitReturn'' ''Base'' = True"
  "subclass_of ''Value'' ''Base'' = True"
  "subclass_of ''HereComment'' ''Base'' = True"
  "subclass_of ''LineComment'' ''Base'' = True"
  "subclass_of ''Call'' ''Base'' = True"
  "subclass_of ''DynamicImportCall'' ''Base'' = True"
  "subclass_of ''SuperCall'' ''Base'' = True"
  "subclass_of ''Super'' ''Base'' = True"
  "subclass_of ''RegexWithInterpolations'' ''Base'' = True"
  "subclass_of ''TaggedTemplateCall'' ''Base'' = True"
  "subclass_of ''Extends'' ''Base'' = True"
  "subclass_of ''Access'' ''Base'' = True"
  "subclass_of ''Index'' ''Base'' = True"
  "subclass_of ''Range'' ''Base'' = True"
  "subclass_of ''Slice'' ''Base'' = True"
  "subclass_of ''Obj'' ''Base'' = True"
  "subclass_of ''Arr'' ''Base'' = True"
  "subclass_of ''Class'' ''Base'' = True"
  "subclass_of ''ModuleDeclaration'' ''Base'' = True"
  "subclass_of ''ImportDeclaration'' ''Base'' = True"
  "subclass_of ''ImportClause'' ''Base'' = True"
  "subclass_of ''ExportDeclaration'' ''Base'' = True"
  "subclass_of ''ExportNamedDeclaration'' ''Base'' = True"
  "subclass_of ''ExportDefaultDeclaration'' ''Base'' = True"
  "subclass_of ''ExportAllDeclaration'' ''Base'' = True"
  "subclass_of ''ModuleSpecifierList'' ''Base'' = True"
  "subclass_of ''ImportSpecifierList'' ''Base'' = True"
  "subclass_of ''ExportSpecifierList'' ''Base'' = True"
  "subclass_of ''ModuleSpecifier'' ''Base'' = True"
  "subclass_of ''ImportSpecifier'' ''Base'' = True"
  "subclass_of ''ImportDefaultSpecifier'' ''Base'' = True"
  "subclass_of ''ImportNamespaceSpecifier'' ''Base'' = True"
  "subclass_of ''ExportSpecifier'' ''Base'' = True"
  "subclass_of ''Assign'' ''Base'' = True"
  "subclass_of ''FuncGlyph'' ''Base'' = True"
  "subclass_of ''Code'' ''Base'' = True"
  "subclass_of ''Param'' ''Base'' = True"
  "subclass_of ''Splat'' ''Base'' = True"
  "subclass_of ''Expansion'' ''Base'' = True"
  "subclass_of ''While'' ''Base'' = True"
  "subclass_of ''Op'' ''Base'' = True"
  "subclass_of ''In'' ''Base'' = True"
  "subclass_of ''Try'' ''Base'' = True"
  "subclass_of ''Throw'' ''Base'' = True"
  "subclass_of ''Existence'' ''Base'' = True"
  "subclass_of ''Parens'' ''Base'' = True"
  "subclass_of ''StringWithInterpolations'' ''Base'' = True"
  "subclass_of ''For'' ''Base'' = True"
  "subclass_of ''Switch'' ''Base'' = True"
  "subclass_of ''If'' ''Base'' = True"
  "subclass_of ''LocationData'' ''Base'' = False"
  "subclass_of ''Scope'' ''Base'' = False"
  "subclass_of ''CoffeeScriptStatic'' ''Base'' = False"
  by (simp_all add: subclass_of_def)

lemma declares_children [simp]:
  "declares ''children'' AbstractO_decl = False"
  "declares ''children'' ChildKind_decl = False"
  "declares ''children'' CodeFragment_decl = False"
  "declares ''children'' Base_decl = True"
  "declares ''children'' HoistTarget_decl = False"
  "declares ''children'' Block_decl = False"
  "declares ''children'' Literal_decl = False"
  "declares ''children'' NumberLiteral_decl = False"
  "declares ''children'' InfinityLiteral_decl = False"
  "declares ''children'' NaNLiteral_decl = False"
  "declares ''children'' StringLiteral_decl = False"
  "declares ''children'' RegexLiteral_decl = False"
  "declares ''children'' PassthroughLiteral_decl = False"
  "declares ''children'' IdentifierLiteral_decl = False"
  "declares ''children'' CSXTag_decl = False"
  "declares ''children'' PropertyName_decl = False"
  "declares ''children'' StatementLiteral_decl = False"
  "declares ''children'' ThisLiteral_decl = False"
  "declares ''children'' UndefinedLiteral_decl = False"
  "declares ''children'' NullLiteral_decl = False"
  "declares ''children'' BooleanLiteral_decl = False"
  "declares ''children'' Return_decl = False"
  "declares ''children'' YieldReturn_decl = False"
  "declares ''children'' AwaitReturn_decl = False"
  "declares ''children'' Value_decl = False"
  "declares ''children'' HereComment_decl = False"
  "declares ''children'' LineComment_decl = False"
  "declares ''children'' Call_decl = False"
  "declares ''children'' DynamicImportCall_decl = False"
  "declares ''children'' SuperCall_decl = False"
  "declares ''children'' Super_decl = False"
  "declares ''children'' RegexWithInterpolations_decl = False"
  "declares ''children'' TaggedTemplateCall_decl = False"
  "declares ''children'' Extends_decl = False"
  "declares ''children'' Access_decl = False"
  "declares ''children'' Index_decl = False"
  "declares ''children'' Range_decl = False"
  "declares ''children'' Slice_decl = False"
  "declares ''children'' Obj_decl = False"
  "declares ''children'' Arr_decl = False"
  "declares ''children'' Class_decl = False"
  "declares ''children'' ModuleDeclaration_decl = False"
  "declares ''children'' ImportDeclaration_decl = False"
  "declares ''children'' ImportClause_decl = False"
  "declares ''children'' ExportDeclaration_decl = False"
  "declares ''children'' ExportNamedDeclaration_decl = False"
  "declares ''children'' ExportDefaultDeclaration_decl = False"
  "declares ''children'' ExportAllDeclaration_decl = False"
  "declares ''children'' ModuleSpecifierList_decl = False"
  "declares ''children'' ImportSpecifierList_decl = False"
  "declares ''children'' ExportSpecifierList_decl = False"
  "declares ''children'' ModuleSpecifier_decl = False"
  "declares ''children'' ImportSpecifier_decl = False"
  "declares ''children'' ImportDefaultSpecifier_decl = False"
  "declares ''children'' ImportNamespaceSpecifier_decl = False"
  "declares ''children'' ExportSpecifier_decl = False"
  "declares ''children'' Assign_decl = False"
  "declares ''children'' FuncGlyph_decl = False"
  "declares ''children'' Code_decl = False"
  "declares ''children'' Param_decl = False"
  "declares ''children'' Splat_decl = False"
  "declares ''children'' Expansion_decl = False"
  "declares ''children'' While_decl = False"
  "declares ''children'' Op_decl = False"
  "declares ''children'' In_decl = False"
  "declares ''children'' Try_decl = False"
  "declares ''children'' Throw_decl = False"
  "declares ''children'' Existence_decl = False"
  "declares ''children'' Parens_decl = False"
  "declares ''children'' StringWithInterpolations_decl = False"
  "declares ''children'' For_decl = False"
  "declares ''children'' Switch_decl = False"
  "declares ''children'' If_decl = False"
  "declares ''children'' LocationData_decl = False"
  "declares ''children'' Scope_decl = False"
  "declares ''children'' CoffeeScriptStatic_decl = False"
  by (simp_all add: declares_def)

lemma declares_locationData [simp]:
  "declares ''locationData'' AbstractO_decl = False"
  "declares ''locationData'' ChildKind_decl = False"
  "declares ''locationData'' CodeFragment_decl = True"
  "declares ''locationData'' Base_decl = True"
  "declares ''locationData'' HoistTarget_decl = False"
  "declares ''locationData'' Block_decl = False"
  "declares ''locationData'' Literal_decl = False"
  "declares ''locationData'' NumberLiteral_decl = False"
  "declares ''locationData'' InfinityLiteral_decl = False"
  "declares ''locationData'' NaNLiteral_decl = False"
  "declares ''locationData'' StringLiteral_decl = False"
  "declares ''locationData'' RegexLiteral_decl = False"
  "declares ''locationData'' PassthroughLiteral_decl = False"
  "declares ''locationData'' IdentifierLiteral_decl = False"
  "declares ''locationData'' CSXTag_decl = False"
  "declares ''locationData'' PropertyName_decl = False"
  "declares ''locationData'' StatementLiteral_decl = False"
  "declares ''locationData'' ThisLiteral_decl = False"
  "declares ''locationData'' UndefinedLiteral_decl = False"
  "declares ''locationData'' NullLiteral_decl = False"
  "declares ''locationData'' BooleanLiteral_decl = False"
  "declares ''locationData'' Return_decl = False"
  "declares ''locationData'' YieldReturn_decl = False"
  "declares ''locationData'' AwaitReturn_decl = False"
  "declares ''locationData'' Value_decl = False"
  "declares ''locationData'' HereComment_decl = False"
  "declares ''locationData'' LineComment_decl = False"
  "declares ''locationData'' Call_decl = False"
  "declares ''locationData'' DynamicImportCall_decl = False"
  "declares ''locationData'' SuperCall_decl = False"
  "declares ''locationData'' Super_decl = False"
  "declares ''locationData'' RegexWithInterpolations_decl = False"
  "declares ''locationData'' TaggedTemplateCall_decl = False"
  "declares ''locationData'' Extends_decl = False"
  "declares ''locationData'' Access_decl = False"
  "declares ''locationData'' Index_decl = False"
  "declares ''locationData'' Range_decl = False"
  "declares ''locationData'' Slice_decl = False"
  "declares ''locationData'' Obj_decl = False"
  "declares ''locationData'' Arr_decl = False"
  "declares ''locationData'' Class_decl = False"
  "declares ''locationData'' ModuleDeclaration_decl = False"
  "declares ''locationData'' ImportDeclaration_decl = False"
  "declares ''locationData'' ImportClause_decl = False"
  "declares ''locationData'' ExportDeclaration_decl = False"
  "declares ''locationData'' ExportNamedDeclaration_decl = False"
  "declares ''locationData'' ExportDefaultDeclaration_decl = False"
  "declares ''locationData'' ExportAllDeclaration_decl = False"
  "declares ''locationData'' ModuleSpecifierList_decl = False"
  "declares ''locationData'' ImportSpecifierList_decl = False"
  "declares ''locationData'' ExportSpecifierList_decl = False"
  "declares ''locationData'' ModuleSpecifier_decl = False"
  "declares ''locationData'' ImportSpecifier_decl = False"
  "declares ''locationData'' ImportDefaultSpecifier_decl = False"
  "declares ''locationData'' ImportNamespaceSpecifier_decl = False"
  "declares ''locationData'' ExportSpecifier_decl = False"
  "declares ''locationData'' Assign_decl = False"
  "declares ''locationData'' FuncGlyph_decl = False"
  "declares ''locationData'' Code_decl = False"
  "declares ''locationData'' Param_decl = False"
  "declares ''locationData'' Splat_decl = False"
  "declares ''locationData'' Expansion_decl = False"
  "declares ''locationData'' While_decl = False"
  "declares ''locationData'' Op_decl = False"
  "declares ''locationData'' In_decl = False"
  "declares ''locationData'' Try_decl = False"
  "declares ''locationData'' Throw_decl = False"
  "declares ''locationData'' Existence_decl = False"
  "declares ''locationData'' Parens_decl = False"
  "declares ''locationData'' StringWithInterpolations_decl = False"
  "declares ''locationData'' For_decl = False"
  "declares ''locationData'' Switch_decl = False"
  "declares ''locationData'' If_decl = False"
  "declares ''locationData'' LocationData_decl = False"
  "declares ''locationData'' Scope_decl = False"
  "declares ''locationData'' CoffeeScriptStatic_decl = False"
  by (simp_all add: declares_def)

lemma declares_contains [simp]:
  "declares ''contains'' AbstractO_decl = False"
  "declares ''contains'' ChildKind_decl = False"
  "declares ''contains'' CodeFragment_decl = False"
  "declares ''contains'' Base_decl = True"
  "declares ''contains'' HoistTarget_decl = False"
  "declares ''contains'' Block_decl = False"
  "declares ''contains'' Literal_decl = False"
  "declares ''contains'' NumberLiteral_decl = False"
  "declares ''contains'' InfinityLiteral_decl = False"
  "declares ''contains'' NaNLiteral_decl = False"
  "declares ''contains'' StringLiteral_decl = False"
  "declares ''contains'' RegexLiteral_decl = False"
  "declares ''contains'' PassthroughLiteral_decl = False"
  "declares ''contains'' IdentifierLiteral_decl = False"
  "declares ''contains'' CSXTag_decl = False"
  "declares ''contains'' PropertyName_decl = False"
  "declares ''contains'' StatementLiteral_decl = False"
  "declares ''contains'' ThisLiteral_decl = False"
  "declares ''contains'' UndefinedLiteral_decl = False"
  "declares ''contains'' NullLiteral_decl = False"
  "declares ''contains'' BooleanLiteral_decl = False"
  "declares ''contains'' Return_decl = False"
  "declares ''contains'' YieldReturn_decl = False"
  "declares ''contains'' AwaitReturn_decl = False"
  "declares ''contains'' Value_decl = False"
  "declares ''contains'' HereComment_decl = False"
  "declares ''contains'' LineComment_decl = False"
  "declares ''contains'' Call_decl = False"
  "declares ''contains'' DynamicImportCall_decl = False"
  "declares ''contains'' SuperCall_decl = False"
  "declares ''contains'' Super_decl = False"
  "declares ''contains'' RegexWithInterpolations_decl = False"
  "declares ''contains'' TaggedTemplateCall_decl = False"
  "declares ''contains'' Extends_decl = False"
  "declares ''contains'' Access_decl = False"
  "declares ''contains'' Index_decl = False"
  "declares ''contains'' Range_decl = False"
  "declares ''contains'' Slice_decl = False"
  "declares ''contains'' Obj_decl = False"
  "declares ''contains'' Arr_decl = False"
  "declares ''contains'' Class_decl = False"
  "declares ''contains'' ModuleDeclaration_decl = False"
  "declares ''contains'' ImportDeclaration_decl = False"
  "declares ''contains'' ImportClause_decl = False"
  "declares ''contains'' ExportDeclaration_decl = False"
  "declares ''contains'' ExportNamedDeclaration_decl = False"
  "declares ''contains'' ExportDefaultDeclaration_decl = False"
  "declares ''contains'' ExportAllDeclaration_decl = False"
  "declares ''contains'' ModuleSpecifierList_decl = False"
  "declares ''contains'' ImportSpecifierList_decl = False"
  "declares ''contains'' ExportSpecifierList_decl = False"
  "declares ''contains'' ModuleSpecifier_decl = False"
  "declares ''contains'' ImportSpecifier_decl = False"
  "declares ''contains'' ImportDefaultSpecifier_decl = False"
  "declares ''contains'' ImportNamespaceSpecifier_decl = False"
  "declares ''contains'' ExportSpecifier_decl = False"
  "declares ''contains'' Assign_decl = False"
  "declares ''contains'' FuncGlyph_decl = False"
  "declares ''contains'' Code_decl = False"
  "declares ''contains'' Param_decl = False"
  "declares ''contains'' Splat_decl = False"
  "declares ''contains'' Expansion_decl = False"
  "declares ''contains'' While_decl = False"
  "declares ''contains'' Op_decl = False"
  "declares ''contains'' In_decl = False"
  "declares ''contains'' Try_decl = False"
  "declares ''contains'' Throw_decl = False"
  "declares ''contains'' Existence_decl = False"
  "declares ''contains'' Parens_decl = False"
  "declares ''contains'' StringWithInterpolations_decl = False"
  "declares ''contains'' For_decl = False"
  "declares ''contains'' Switch_decl = False"
  "declares ''contains'' If_decl = False"
  "declares ''contains'' LocationData_decl = False"
  "declares ''contains'' Scope_decl = False"
  "declares ''contains'' CoffeeScriptStatic_decl = False"
  by (simp_all add: declares_def)

lemma declares_value [simp]:
  "declares ''value'' AbstractO_decl = False"
  "declares ''value'' ChildKind_decl = False"
  "declares ''value'' CodeFragment_decl = False"
  "declares ''value'' Base_decl = False"
  "declares ''value'' HoistTarget_decl = False"
  "declares ''value'' Block_decl = False"
  "declares ''value'' Literal_decl = True"
  "declares ''value'' NumberLiteral_decl = False"
  "declares ''value'' InfinityLiteral_decl = False"
  "declares ''value'' NaNLiteral_decl = False"
  "declares ''value'' StringLiteral_decl = False"
  "declares ''value'' RegexLiteral_decl = False"
  "declares ''value'' PassthroughLiteral_decl = False"
  "declares ''value'' IdentifierLiteral_decl = False"
  "declares ''value'' CSXTag_decl = False"
  "declares ''value'' PropertyName_decl = False"
  "declares ''value'' StatementLiteral_decl = False"
  "declares ''value'' ThisLiteral_decl = False"
  "declares ''value'' UndefinedLiteral_decl = False"
  "declares ''value'' NullLiteral_decl = False"
  "declares ''value'' BooleanLiteral_decl = False"
  "declares ''value'' Return_decl = False"
  "declares ''value'' YieldReturn_decl = False"
  "declares ''value'' AwaitReturn_decl = False"
  "declares ''value'' Value_decl = False"
  "declares ''value'' HereComment_decl = False"
  "declares ''value'' LineComment_decl = False"
  "declares ''value'' Call_decl = False"
  "declares ''value'' DynamicImportCall_decl = False"
  "declares ''value'' SuperCall_decl = False"
  "declares ''value'' Super_decl = False"
  "declares ''value'' RegexWithInterpolations_decl = False"
  "declares ''value'' TaggedTemplateCall_decl = False"
  "declares ''value'' Extends_decl = False"
  "declares ''value'' Access_decl = False"
  "declares ''value'' Index_decl = False"
  "declares ''value'' Range_decl = False"
  "declares ''value'' Slice_decl = False"
  "declares ''value'' Obj_decl = False"
  "declares ''value'' Arr_decl = False"
  "declares ''value'' Class_decl = False"
  "declares ''value'' ModuleDeclaration_decl = False"
  "declares ''value'' ImportDeclaration_decl = False"
  "declares ''value'' ImportClause_decl = False"
  "declares ''value'' ExportDeclaration_decl = False"
  "declares ''value'' ExportNamedDeclaration_decl = False"
  "declares ''value'' ExportDefaultDeclaration_decl = False"
  "declares ''value'' ExportAllDeclaration_decl = False"
  "declares ''value'' ModuleSpecifierList_decl = False"
  "declares ''value'' ImportSpecifierList_decl = False"
  "declares ''value'' ExportSpecifierList_decl = False"
  "declares ''value'' ModuleSpecifier_decl = False"
  "declares ''value'' ImportSpecifier_decl = False"
  "declares ''value'' ImportDefaultSpecifier_decl = False"
  "declares ''value'' ImportNamespaceSpecifier_decl = False"
  "declares ''value'' ExportSpecifier_decl = False"
  "declares ''value'' Assign_decl = True"
  "declares ''value'' FuncGlyph_decl = False"
  "declares ''value'' Code_decl = False"
  "declares ''value'' Param_decl = True"
  "declares ''value'' Splat_decl = False"
  "declares ''value'' Expansion_decl = False"
  "declares ''value'' While_decl = False"
  "declares ''value'' Op_decl = False"
  "declares ''value'' In_decl = False"
  "declares ''value'' Try_decl = False"
  "declares ''value'' Throw_decl = False"
  "declares ''value'' Existence_decl = False"
  "declares ''value'' Parens_decl = False"
  "declares ''value'' StringWithInterpolations_decl = False"
  "declares ''value'' For_decl = False"
  "declares ''value'' Switch_decl = False"
  "declares ''value'' If_decl = False"
  "declares ''value'' LocationData_decl = False"
  "declares ''value'' Scope_decl = False"
  "declares ''value'' CoffeeScriptStatic_decl = False"
  by (simp_all add: declares_def)

lemma subclass_Literal_decl [simp]:
  "subclass_of ''AbstractO'' ''Literal'' = False"
  "subclass_of ''ChildKind'' ''Literal'' = False"
  "subclass_of ''CodeFragment'' ''Literal'' = False"
  "subclass_of ''Base'' ''Literal'' = False"
  "subclass_of ''HoistTarget'' ''Literal'' = False"
  "subclass_of ''Block'' ''Literal'' = False"
  "subclass_of ''Literal'' ''Literal'' = True"
  "subclass_of ''NumberLiteral'' ''Literal'' = True"
  "subclass_of ''InfinityLiteral'' ''Literal'' = True"
  "subclass_of ''NaNLiteral'' ''Literal'' = True"
  "subclass_of ''StringLiteral'' ''Literal'' = True"
  "subclass_of ''RegexLiteral'' ''Literal'' = True"
  "subclass_of ''PassthroughLiteral'' ''Literal'' = True"
  "subclass_of ''IdentifierLiteral'' ''Literal'' = True"
  "subclass_of ''CSXTag'' ''Literal'' = True"
  "subclass_of ''PropertyName'' ''Literal'' = True"
  "subclass_of ''StatementLiteral'' ''Literal'' = True"
  "subclass_of ''ThisLiteral'' ''Literal'' = True"
  "subclass_of ''UndefinedLiteral'' ''Literal'' = True"
  "subclass_of ''NullLiteral'' ''Literal'' = True"
  "subclass_of ''BooleanLiteral'' ''Literal'' = True"
  "subclass_of ''Return'' ''Literal'' = False"
  "subclass_of ''YieldReturn'' ''Literal'' = False"
  "subclass_of ''AwaitReturn'' ''Literal'' = False"
  "subclass_of ''Value'' ''Literal'' = False"
  "subclass_of ''HereComment'' ''Literal'' = False"
  "subclass_of ''LineComment'' ''Literal'' = False"
  "subclass_of ''Call'' ''Literal'' = False"
  "subclass_of ''DynamicImportCall'' ''Literal'' = False"
  "subclass_of ''SuperCall'' ''Literal'' = False"
  "subclass_of ''Super'' ''Literal'' = False"
  "subclass_of ''RegexWithInterpolations'' ''Literal'' = False"
  "subclass_of ''TaggedTemplateCall'' ''Literal'' = False"
  "subclass_of ''Extends'' ''Literal'' = False"
  "subclass_of ''Access'' ''Literal'' = False"
  "subclass_of ''Index'' ''Literal'' = False"
  "subclass_of ''Range'' ''Literal'' = False"
  "subclass_of ''Slice'' ''Literal'' = False"
  "subclass_of ''Obj'' ''Literal'' = False"
  "subclass_of ''Arr'' ''Literal'' = False"
  "subclass_of ''Class'' ''Literal'' = False"
  "subclass_of ''ModuleDeclaration'' ''Literal'' = False"
  "subclass_of ''ImportDeclaration'' ''Literal'' = False"
  "subclass_of ''ImportClause'' ''Literal'' = False"
  "subclass_of ''ExportDeclaration'' ''Literal'' = False"
  "subclass_of ''ExportNamedDeclaration'' ''Literal'' = False"
  "subclass_of ''ExportDefaultDeclaration'' ''Literal'' = False"
  "subclass_of ''ExportAllDeclaration'' ''Literal'' = False"
  "subclass_of ''ModuleSpecifierList'' ''Literal'' = False"
  "subclass_of ''ImportSpecifierList'' ''Literal'' = False"
  "subclass_of ''ExportSpecifierList'' ''Literal'' = False"
  "subclass_of ''ModuleSpecifier'' ''Literal'' = False"
  "subclass_of ''ImportSpecifier'' ''Literal'' = False"
  "subclass_of ''ImportDefaultSpecifier'' ''Literal'' = False"
  "subclass_of ''ImportNamespaceSpecifier'' ''Literal'' = False"
  "subclass_of ''ExportSpecifier'' ''Literal'' = False"
  "subclass_of ''Assign'' ''Literal'' = False"
  "subclass_of ''FuncGlyph'' ''Literal'' = False"
  "subclass_of ''Code'' ''Literal'' = False"
  "subclass_of ''Param'' ''Literal'' = False"
  "subclass_of ''Splat'' ''Literal'' = False"
  "subclass_of ''Expansion'' ''Literal'' = False"
  "subclass_of ''While'' ''Literal'' = False"
  "subclass_of ''Op'' ''Literal'' = False"
  "subclass_of ''In'' ''Literal'' = False"
  "subclass_of ''Try'' ''Literal'' = False"
  "subclass_of ''Throw'' ''Literal'' = False"
  "subclass_of ''Existence'' ''Literal'' = False"
  "subclass_of ''Parens'' ''Literal'' = False"
  "subclass_of ''StringWithInterpolations'' ''Literal'' = False"
  "subclass_of ''For'' ''Literal'' = False"
  "subclass_of ''Switch'' ''Literal'' = False"
  "subclass_of ''If'' ''Literal'' = False"
  "subclass_of ''LocationData'' ''Literal'' = False"
  "subclass_of ''Scope'' ''Literal'' = False"
  "subclass_of ''CoffeeScriptStatic'' ''Literal'' = False"
  by (simp_all add: subclass_of_def)

lemma stmt_impls_decl [simp]:
  "stmt_impls AbstractO_decl = []"
  "stmt_impls ChildKind_decl = []"
  "stmt_impls CodeFragment_decl = []"
  "stmt_impls Base_decl = []"
  "stmt_impls HoistTarget_decl = []"
  "stmt_impls Block_decl = []"
  "stmt_impls Literal_decl = []"
  "stmt_impls NumberLiteral_decl = []"
  "stmt_impls InfinityLiteral_decl = []"
  "stmt_impls NaNLiteral_decl = []"
  "stmt_impls StringLiteral_decl = []"
  "stmt_impls RegexLiteral_decl = []"
  "stmt_impls PassthroughLiteral_decl = []"
  "stmt_impls IdentifierLiteral_decl = []"
  "stmt_impls CSXTag_decl = []"
  "stmt_impls PropertyName_decl = []"
  "stmt_impls StatementLiteral_decl = []"
  "stmt_impls ThisLiteral_decl = []"
  "stmt_impls UndefinedLiteral_decl = []"
  "stmt_impls NullLiteral_decl = []"
  "stmt_impls BooleanLiteral_decl = []"
  "stmt_impls Return_decl = []"
  "stmt_impls YieldReturn_decl = []"
  "stmt_impls AwaitReturn_decl = []"
  "stmt_impls Value_decl = []"
  "stmt_impls HereComment_decl = []"
  "stmt_impls LineComment_decl = []"
  "stmt_impls Call_decl = []"
  "stmt_impls DynamicImportCall_decl = []"
  "stmt_impls SuperCall_decl = []"
  "stmt_impls Super_decl = []"
  "stmt_impls RegexWithInterpolations_decl = []"
  "stmt_impls TaggedTemplateCall_decl = []"
  "stmt_impls Extends_decl = []"
  "stmt_impls Access_decl = []"
  "stmt_impls Index_decl = []"
  "stmt_impls Range_decl = []"
  "stmt_impls Slice_decl = []"
  "stmt_impls Obj_decl = []"
  "stmt_impls Arr_decl = []"
  "stmt_impls Class_decl = []"
  "stmt_impls ModuleDeclaration_decl = []"
  "stmt_impls ImportDeclaration_decl = []"
  "stmt_impls ImportClause_decl = []"
  "stmt_impls ExportDeclaration_decl = []"
  "stmt_impls ExportNamedDeclaration_decl = []"
  "stmt_impls ExportDefaultDeclaration_decl = []"
  "stmt_impls ExportAllDeclaration_decl = []"
  "stmt_impls ModuleSpecifierList_decl = []"
  "stmt_impls ImportSpecifierList_decl = []"
  "stmt_impls ExportSpecifierList_decl = []"
  "stmt_impls ModuleSpecifier_decl = []"
  "stmt_impls ImportSpecifier_decl = []"
  "stmt_impls ImportDefaultSpecifier_decl = []"
  "stmt_impls ImportNamespaceSpecifier_decl = []"
  "stmt_impls ExportSpecifier_decl = []"
  "stmt_impls Assign_decl = []"
  "stmt_impls FuncGlyph_decl = []"
  "stmt_impls Code_decl = []"
  "stmt_impls Param_decl = []"
  "stmt_impls Splat_decl = []"
  "stmt_impls Expansion_decl = []"
  "stmt_impls While_decl = []"
  "stmt_impls Op_decl = []"
  "stmt_impls In_decl = []"
  "stmt_impls Try_decl = []"
  "stmt_impls Throw_decl = []"
  "stmt_impls Existence_decl = []"
  "stmt_impls Parens_decl = []"
  "stmt_impls StringWithInterpolations_decl = []"
  "stmt_impls For_decl = []"
  "stmt_impls Switch_decl = []"
  "stmt_impls If_decl = []"
  "stmt_impls LocationData_decl = []"
  "stmt_impls Scope_decl = []"
  "stmt_impls CoffeeScriptStatic_decl = []"
  by (simp_all add: decl_defs List.map_filter_simps)

lemma member_count_decl [simp]:
  "length (stmt_members AbstractO_decl) = 5"
  "length (stmt_members ChildKind_decl) = 0"
  "length (stmt_members CodeFragment_decl) = 2"
  "length (stmt_members Base_decl) = 19"
  "length (stmt_members HoistTarget_decl) = 1"
  "length (stmt_members Block_decl) = 1"
  "length (stmt_members Literal_decl) = 1"
  "length (stmt_members NumberLiteral_decl) = 0"
  "length (stmt_members InfinityLiteral_decl) = 0"
  "length (stmt_members NaNLiteral_decl) = 0"
  "length (stmt_members StringLiteral_decl) = 0"
  "length (stmt_members RegexLiteral_decl) = 0"
  "length (stmt_members PassthroughLiteral_decl) = 0"
  "length (stmt_members IdentifierLiteral_decl) = 0"
  "length (stmt_members CSXTag_decl) = 0"
  "length (stmt_members PropertyName_decl) = 0"
  "length (stmt_members StatementLiteral_decl) = 0"
  "length (stmt_members ThisLiteral_decl) = 0"
  "length (stmt_members UndefinedLiteral_decl) = 0"
  "length (stmt_members NullLiteral_decl) = 0"
  "length (stmt_members BooleanLiteral_decl) = 0"
  "length (stmt_members Return_decl) = 1"
  "length (stmt_members YieldReturn_decl) = 0"
  "length (stmt_members AwaitReturn_decl) = 0"
  "length (stmt_members Value_decl) = 22"
  "length (stmt_members HereComment_decl) = 3"
  "length (stmt_members LineComment_decl) = 3"
  "length (stmt_members Call_decl) = 4"
  "length (stmt_members DynamicImportCall_decl) = 0"
  "length (stmt_members SuperCall_decl) = 0"
  "length (stmt_members Super_decl) = 1"
  "length (stmt_members RegexWithInterpolations_decl) = 0"
  "length (stmt_members TaggedTemplateCall_decl) = 0"
  "length (stmt_members Extends_decl) = 2"
  "length (stmt_members Access_decl) = 1"
  "length (stmt_members Index_decl) = 1"
  "length (stmt_members Range_decl) = 2"
  "length (stmt_members Slice_decl) = 1"
  "length (stmt_members Obj_decl) = 5"
  "length (stmt_members Arr_decl) = 2"
  "length (stmt_members Class_decl) = 3"
  "length (stmt_members ModuleDeclaration_decl) = 2"
  "length (stmt_members ImportDeclaration_decl) = 0"
  "length (stmt_members ImportClause_decl) = 2"
  "length (stmt_members ExportDeclaration_decl) = 0"
  "length (stmt_members ExportNamedDeclaration_decl) = 0"
  "length (stmt_members ExportDefaultDeclaration_decl) = 0"
  "length (stmt_members ExportAllDeclaration_decl) = 0"
  "length (stmt_members ModuleSpecifierList_decl) = 1"
  "length (stmt_members ImportSpecifierList_decl) = 0"
  "length (stmt_members ExportSpecifierList_decl) = 0"
  "length (stmt_members ModuleSpecifier_decl) = 3"
  "length (stmt_members ImportSpecifier_decl) = 0"
  "length (stmt_members ImportDefaultSpecifier_decl) = 0"
  "length (stmt_members ImportNamespaceSpecifier_decl) = 0"
  "length (stmt_members ExportSpecifier_decl) = 0"
  "length (stmt_members Assign_decl) = 4"
  "length (stmt_members FuncGlyph_decl) = 1"
  "length (stmt_members Code_decl) = 7"
  "length (stmt_members Param_decl) = 3"
  "length (stmt_members Splat_decl) = 1"
  "length (stmt_members Expansion_decl) = 0"
  "length (stmt_members While_decl) = 3"
  "length (stmt_members Op_decl) = 2"
  "length (stmt_members In_decl) = 2"
  "length (stmt_members Try_decl) = 3"
  "length (stmt_members Throw_decl) = 1"
  "length (stmt_members Existence_decl) = 1"
  "length (stmt_members Parens_decl) = 1"
  "length (stmt_members StringWithInterpolations_decl) = 1"
  "length (stmt_members For_decl) = 4"
  "length (stmt_members Switch_decl) = 3"
  "length (stmt_members If_decl) = 3"
  "length (stmt_members LocationData_decl) = 4"
  "length (stmt_members Scope_decl) = 3"
  "length (stmt_members CoffeeScriptStatic_decl) = 1"
  by (simp_all add: decl_defs)

lemma node_classes_eq:
  "node_classes =
     [''Base'', ''HoistTarget'', ''Block'', ''Literal'', ''NumberLiteral'',
      ''InfinityLiteral'', ''NaNLiteral'', ''StringLiteral'', ''RegexLiteral'',
      ''PassthroughLiteral'', ''IdentifierLiteral'', ''CSXTag'', ''PropertyName'',
      ''StatementLiteral'', ''ThisLiteral'', ''UndefinedLiteral'', ''NullLiteral'',
      ''BooleanLiteral'', ''Return'', ''YieldReturn'', ''AwaitReturn'', ''Value'',
      ''HereComment'', ''LineComment'', ''Call'', ''DynamicImportCall'', ''SuperCall'',
      ''Super'', ''RegexWithInterpolations'', ''TaggedTemplateCall'', ''Extends'', ''Access'',
      ''Index'', ''Range'', ''Slice'', ''Obj'', ''Arr'', ''Class'', ''ModuleDeclaration'',
      ''ImportDeclaration'', ''ImportClause'', ''ExportDeclaration'',
      ''ExportNamedDeclaration'', ''ExportDefaultDeclaration'', ''ExportAllDeclaration'',
      ''ModuleSpecifierList'', ''ImportSpecifierList'', ''ExportSpecifierList'',
      ''ModuleSpecifier'', ''ImportSpecifier'', ''ImportDefaultSpecifier'',
      ''ImportNamespaceSpecifier'', ''ExportSpecifier'', ''Assign'', ''FuncGlyph'', ''Code'',
      ''Param'', ''Splat'', ''Expansion'', ''While'', ''Op'', ''In'', ''Try'', ''Throw'',
      ''Existence'', ''Parens'', ''StringWithInterpolations'', ''For'', ''Switch'', ''If'']"
  by (simp add: node_classes_def Nodes_body_def List.map_filter_simps)

lemma node_classes_distinct: "distinct node_classes"
  by (simp add: node_classes_eq)

text \<open>
  Two checks on the way the declarations are read. No walk along \<^verbatim>\<open>extends\<close> is cut
  short by its bound: every lineage ends in a declaration without a superclass. And
  the namespace declares neither of the type names of the top level, so that a name
  resolves to the same declaration from either scope.
\<close>

lemma lineage_complete:
  "list_all (\<lambda>d. extends_of (last (lineage d)) = None \<and> length (lineage d) \<le> 4)
     (Nodes_body @ [Scope_decl, CoffeeScriptStatic_decl])"
  by (simp add: Nodes_body_def)

lemma scopes_disjoint:
  "find_type ''Scope'' Nodes_body = None"
  "find_type ''CoffeeScriptStatic'' Nodes_body = None"
  by (simp_all add: Nodes_body_def)

section \<open>Lookup, inheritance and values\<close>

subsection \<open>Lookup\<close>

lemma find_type_Some: "find_type n ds = Some d \<Longrightarrow> d \<in> set ds \<and> type_name d = Some n"
  by (induction ds) (auto split: if_splits)

lemma lookup_type_declared: "lookup_type c = Some d \<Longrightarrow> c \<in> set declared_types"
proof -
  assume a: "lookup_type c = Some d"
  have "d \<in> set (Nodes_body @ globals) \<and> type_name d = Some c"
  proof (cases "find_type c Nodes_body")
    case None
    with a find_type_Some [of c globals d] show ?thesis
      by (simp add: lookup_type_def del: find_type_globals)
  next
    case (Some e)
    with a find_type_Some [of c Nodes_body d] show ?thesis
      by (simp add: lookup_type_def)
  qed
  then show ?thesis
    by (auto simp: declared_types_def List.map_filter_def intro!: image_eqI [where x = d])
qed

lemma for_declared:
  assumes "list_all P declared_types" and "lookup_type c = Some d"
  shows "P c"
  using assms lookup_type_declared [of c d] by (simp add: list_all_iff)

lemma subclass_declared: "subclass_of c b \<Longrightarrow> \<exists>d. lookup_type c = Some d"
  by (cases "lookup_type c") (simp_all add: subclass_of_def supers_def)

lemma for_subclasses:
  assumes "list_all (\<lambda>c. subclass_of c b \<longrightarrow> P c) declared_types" and "subclass_of c b"
  shows "P c"
proof -
  from assms(2) obtain d where "lookup_type c = Some d"
    using subclass_declared by blast
  from for_declared [OF assms(1) this] assms(2) show ?thesis by simp
qed

subsection \<open>Members through inheritance\<close>

lemma find_inherit:
  "find (\<lambda>m. member_name m = n) (foldr inherit ds []) =
     (case find (declares n) ds of
        None \<Rightarrow> None
      | Some e \<Rightarrow> find (\<lambda>m. member_name m = n) (members_of e))"
proof (induction ds)
  case Nil
  show ?case by simp
next
  case (Cons d ds)
  have hit: "find (\<lambda>m. member_name m = n) (xs @ ys) = find (\<lambda>m. member_name m = n) xs"
    if "n \<in> set (map member_name xs)" for xs ys
    using that by (induction xs) auto
  have miss: "find (\<lambda>m. member_name m = n) (xs @ filter (\<lambda>m. \<not> Q (member_name m)) ys)
      = find (\<lambda>m. member_name m = n) ys"
    if "n \<notin> set (map member_name xs)" "\<not> Q n" for xs ys Q
    using that
  proof (induction xs)
    case Nil
    then show ?case by (induction ys) auto
  next
    case (Cons x xs)
    then show ?case by auto
  qed
  show ?case
  proof (cases "declares n d")
    case True
    then show ?thesis by (simp add: inherit_def declares_def member_names_def hit)
  next
    case False
    then have "n \<notin> set (map member_name (members_of d))"
      by (simp add: declares_def member_names_def)
    from miss [OF this, of "\<lambda>k. declares k d"] False Cons.IH show ?thesis
      by (simp add: inherit_def)
  qed
qed

lemma lookup_member_eq:
  "lookup_member c n =
     (case lookup_type c of
        None \<Rightarrow> None
      | Some d \<Rightarrow>
          (case find (declares n) (lineage d) of
             None \<Rightarrow> None
           | Some e \<Rightarrow> find (\<lambda>m. member_name m = n) (members_of e)))"
  by (simp add: lookup_member_def all_members_def decl_members_def find_inherit split: option.splits)

lemma lookup_member_in: "lookup_member c n = Some m \<Longrightarrow> m \<in> set (all_members c)"
  by (auto simp: lookup_member_def find_Some_iff)

lemma decl_members_step: "lineage d = d # lineage e \<Longrightarrow> decl_members d = inherit d (decl_members e)"
  by (simp add: decl_members_def)

lemma decl_members_root: "lineage d = [d] \<Longrightarrow> decl_members d = members_of d"
  by (simp add: decl_members_def inherit_def)

lemma inherit_nothing: "member_names d = [] \<Longrightarrow> inherit d ms = ms"
  by (simp add: inherit_def declares_def member_names_def)

subsection \<open>Values of declared types\<close>

lemma has_slot_required:
  "has_slot fs (n, False, t) = (\<exists>w. map_of fs n = Some w \<and> conforms w t)"
  by (simp add: has_slot_def split: option.splits)

lemma has_slot_optional:
  "has_slot fs (n, True, t) =
     (case map_of fs n of None \<Rightarrow> True | Some w \<Rightarrow> w = VUndefined \<or> conforms w t)"
  by (simp add: has_slot_def split: option.splits)

lemma instance_of_class_like:
  "class_like d \<Longrightarrow>
   instance_of v d =
     (case v of VObj fs \<Rightarrow> list_all (has_slot fs) (map member_slot (decl_members d)) | _ \<Rightarrow> False)"
proof -
  have "has_slot fs =
      (\<lambda>s. case map_of fs (fst s) of
             None \<Rightarrow> fst (snd s)
           | Some w \<Rightarrow> (fst (snd s) \<and> w = VUndefined) \<or> conforms w (snd (snd s)))" for fs
    by (rule ext) (simp add: has_slot_def)
  then show "class_like d \<Longrightarrow> ?thesis"
    by (cases d; cases v) simp_all
qed

lemma conforms_class:
  "lookup_type c = Some d \<Longrightarrow> class_like d \<Longrightarrow>
   conforms v (TRef c) =
     (case v of VObj fs \<Rightarrow> list_all (has_slot fs) (map member_slot (all_members c)) | _ \<Rightarrow> False)"
  by (cases v) (simp_all add: instance_of_class_like all_members_def)

lemma conforms_member:
  assumes "conforms v (TRef c)" and "lookup_type c = Some d" and "class_like d"
    and "lookup_member c n = Some m"
  shows "\<exists>fs. v = VObj fs \<and> has_slot fs (member_slot m)"
proof -
  from assms(1) conforms_class [OF assms(2,3), of v]
  obtain fs where v: "v = VObj fs"
    and all: "list_all (has_slot fs) (map member_slot (all_members c))"
    by (cases v) simp_all
  from lookup_member_in [OF assms(4)] all have "has_slot fs (member_slot m)"
    by (simp add: list_all_iff)
  with v show ?thesis by blast
qed

lemma refs_literals: "refs (TUnion (map TStrLit xs)) = 0"
  by (induction xs) simp_all

lemma conforms_ChildKind: "conforms v (TRef ''ChildKind'') = (v \<in> VStr ` set child_kinds)"
  by (auto simp: ChildKind_decl_def refs_literals list_ex_iff)

lemma conforms_LocationData:
  "conforms v (TRef ''LocationData'') =
     (\<exists>fs a b c d. v = VObj fs
        \<and> map_of fs ''first_line'' = Some (VNum a) \<and> map_of fs ''first_column'' = Some (VNum b)
        \<and> map_of fs ''last_line'' = Some (VNum c) \<and> map_of fs ''last_column'' = Some (VNum d))"
proof -
  have m: "all_members ''LocationData'' = members_of LocationData_decl"
    by (simp add: all_members_def decl_members_root)
  have num: "conforms w TNumber = (\<exists>x. w = VNum x)" for w
    by (cases w) simp_all
  show ?thesis
    by (cases v)
      (auto simp: conforms_class [of "''LocationData''" LocationData_decl] m LocationData_decl_def
         has_slot_required num simp del: conforms.simps)
qed

lemma conforms_string: "conforms w TString = (\<exists>s. w = VStr s)"
  by (cases w) simp_all

lemma conforms_number: "conforms w TNumber = (\<exists>x. w = VNum x)"
  by (cases w) simp_all

lemma conforms_function: "conforms w (TFunc ps r) = (\<exists>f. w = VFun f)"
  by (cases w) simp_all

lemma conforms_array: "conforms w (TArray t) = (\<exists>ws. w = VArr ws \<and> list_all (\<lambda>x. conforms x t) ws)"
  by (cases w) simp_all

lemma all_members_root:
  "lookup_type c = Some d \<Longrightarrow> lineage d = [d] \<Longrightarrow> all_members c = members_of d"
  by (simp add: all_members_def decl_members_root)

lemma exported_scope: "exported ''coffeescript/lib/coffeescript/scope'' = Some Scope_decl"
  by (simp add: exported_def globals_eq Scope_decl_def CoffeeScriptStatic_decl_def)

lemma exported_coffeescript:
  "exported ''coffeescript'' = Some (ConstDecl ''CoffeeScript'' (TRef ''CoffeeScriptStatic'') None)"
  by (simp add: exported_def globals_eq Scope_decl_def CoffeeScriptStatic_decl_def)

lemma exported_nodes:
  "exported ''coffeescript/lib/coffeescript/nodes'' = Some (NamespaceDecl ''Nodes'' Nodes_body)"
  by (simp add: exported_def globals_eq Scope_decl_def CoffeeScriptStatic_decl_def)

lemma example_location_conforms: "conforms example_location (TRef ''LocationData'')"
  by (simp add: conforms_LocationData example_location_def del: conforms.simps)

lemma example_node_conforms: "conforms example_node (TRef ''Base'')"
  unfolding example_node_def
  by (simp add: instance_of_class_like decl_members_root)
     (simp add: Base_decl_def has_slot_required example_fields_def example_location_conforms
        conforms_ChildKind child_kinds_def del: conforms.simps(10))

lemma Block_members:
  "decl_members Block_decl =
     Property ''expressions'' False (TArray (TRef ''Base'')) None # members_of Base_decl"
proof -
  have "decl_members Block_decl = inherit Block_decl (decl_members Base_decl)"
    by (rule decl_members_step) simp
  also have "\<dots> = members_of Block_decl @ members_of Base_decl"
    by (simp add: decl_members_root inherit_def declares_def) (simp add: Base_decl_def)
  finally show ?thesis by (simp add: Block_decl_def)
qed

lemma example_block_conforms: "conforms example_block (TQual ''Nodes'' ''Block'')"
proof -
  have q: "lookup_qual ''Nodes'' ''Block'' = Some Block_decl"
    by (simp add: lookup_qual_def Nodes_body_def)
  have base: "list_all (has_slot example_fields) (map member_slot (members_of Base_decl))"
    using example_node_conforms
    by (simp add: example_node_def instance_of_class_like decl_members_root)
  have ext: "has_slot ((k, x) # fs) s" if "has_slot fs s" "fst s \<noteq> k" for k x fs s
    using that by (simp add: has_slot_def)
  have "list_all (has_slot ((''expressions'', VArr [example_node]) # example_fields))
      (map member_slot (members_of Base_decl))"
    using base unfolding list_all_iff
    by (auto intro!: ext) (simp add: Base_decl_def, auto)
  then show ?thesis
    by (simp add: q instance_of_class_like Block_members example_block_def has_slot_required
        example_node_conforms del: conforms.simps(10))
qed

lemma Base_member_finds:
  "find (\<lambda>m. member_name m = ''children'') (members_of Base_decl) =
     Some (Property ''children'' False (TArray (TRef ''ChildKind'')) None)"
  "find (\<lambda>m. member_name m = ''locationData'') (members_of Base_decl) =
     Some (Property ''locationData'' False (TRef ''LocationData'') None)"
  "find (\<lambda>m. member_name m = ''contains'') (members_of Base_decl) =
     Some (Method ''contains'' [(''pred'', False, TRef ''Base'')] (TUnion [TTrue, TUndefined]) None)"
  by (simp_all add: Base_decl_def)

lemma node_class_members:
  "list_all
     (\<lambda>c. subclass_of c ''Base'' \<longrightarrow>
        (\<exists>d. lookup_type c = Some d \<and> class_like d)
        \<and> lookup_member c ''children'' =
            Some (Property ''children'' False (TArray (TRef ''ChildKind'')) None)
        \<and> declared_in c ''children'' = Some ''Base''
        \<and> lookup_member c ''locationData'' =
            Some (Property ''locationData'' False (TRef ''LocationData'') None)
        \<and> declared_in c ''locationData'' = Some ''Base''
        \<and> lookup_member c ''contains'' =
            Some (Method ''contains'' [(''pred'', False, TRef ''Base'')]
                    (TUnion [TTrue, TUndefined]) None)
        \<and> declared_in c ''contains'' = Some ''Base'')
     declared_types"
  by (simp add: declared_types_eq lookup_member_eq declared_in_def Base_member_finds)

lemma Expansion_members: "decl_members Expansion_decl = members_of Base_decl"
proof -
  have "decl_members Expansion_decl = inherit Expansion_decl (decl_members Base_decl)"
    by (rule decl_members_step) simp
  then show ?thesis
    by (simp add: inherit_nothing decl_members_root)
qed

lemma example_node_expansion: "conforms example_node (TRef ''Expansion'')"
  using example_node_conforms
  by (simp add: example_node_def instance_of_class_like Expansion_members decl_members_root)

subsection \<open>Literals\<close>

lemma Literal_members:
  "decl_members Literal_decl = Property ''value'' False TString None # members_of Base_decl"
proof -
  have "decl_members Literal_decl = inherit Literal_decl (decl_members Base_decl)"
    by (rule decl_members_step) simp
  also have "\<dots> = members_of Literal_decl @ members_of Base_decl"
    by (simp add: decl_members_root inherit_def declares_def) (simp add: Base_decl_def)
  finally show ?thesis by (simp add: Literal_decl_def)
qed

lemma literal_is_base: "conforms v (TRef ''Literal'') \<Longrightarrow> conforms v (TRef ''Base'')"
  by (cases v) (simp_all add: instance_of_class_like Literal_members decl_members_root)

lemma literal_class_members:
  "list_all
     (\<lambda>c. subclass_of c ''Literal'' \<longrightarrow>
        subclass_of c ''Base''
        \<and> (\<exists>d. lookup_type c = Some d \<and> class_like d)
        \<and> all_members c = all_members ''Literal''
        \<and> declared_in c ''value'' = Some ''Literal'')
     declared_types"
  by (simp add: declared_types_eq all_members_def decl_members_def inherit_nothing declared_in_def)

lemma base_slots_extend:
  assumes "list_all (has_slot fs) (map member_slot (members_of Base_decl))"
    and "k \<notin> set (member_names Base_decl)"
  shows "list_all (has_slot ((k, x) # fs)) (map member_slot (members_of Base_decl))"
proof -
  have n: "fst (member_slot m) = member_name m" for m
    by (cases m) simp_all
  have "has_slot ((k, x) # fs) (member_slot m)"
    if "m \<in> set (members_of Base_decl)" "has_slot fs (member_slot m)" for m
  proof -
    from that(1) assms(2) have "member_name m \<noteq> k"
      unfolding member_names_def by auto
    with that(2) show ?thesis by (simp add: has_slot_def n)
  qed
  with assms(1) show ?thesis by (auto simp: list_all_iff)
qed

lemma example_base_slots:
  "list_all (has_slot example_fields) (map member_slot (members_of Base_decl))"
  using example_node_conforms
  by (simp add: example_node_def instance_of_class_like decl_members_root)

lemma example_literal_conforms: "conforms example_literal (TRef ''NumberLiteral'')"
proof -
  have "decl_members NumberLiteral_decl = inherit NumberLiteral_decl (decl_members Literal_decl)"
    by (rule decl_members_step) simp
  then have m: "decl_members NumberLiteral_decl =
      Property ''value'' False TString None # members_of Base_decl"
    by (simp add: inherit_nothing Literal_members)
  from base_slots_extend [OF example_base_slots, of "''value''" "VStr ''42''"]
  show ?thesis
    by (simp add: example_literal_def instance_of_class_like m has_slot_required)
qed

subsection \<open>Counting\<close>

subsection \<open>Operators\<close>

lemma Op_members:
  "decl_members Op_decl =
     Property ''first'' False TString None # Property ''sencond'' False TString None
       # members_of Base_decl"
proof -
  have "decl_members Op_decl = inherit Op_decl (decl_members Base_decl)"
    by (rule decl_members_step) simp
  also have "\<dots> = members_of Op_decl @ members_of Base_decl"
    by (simp add: decl_members_root inherit_def declares_def) (simp add: Base_decl_def)
  finally show ?thesis by (simp add: Op_decl_def)
qed

lemma example_op_conforms: "conforms example_op (TRef ''Op'')"
proof -
  from base_slots_extend [OF example_base_slots, of "''sencond''" "VStr ''b''"]
  have "list_all (has_slot ((''sencond'', VStr ''b'') # example_fields))
      (map member_slot (members_of Base_decl))"
    by simp
  from base_slots_extend [OF this, of "''first''" "VStr ''a''"]
  show ?thesis
    by (simp add: example_op_def instance_of_class_like Op_members has_slot_required)
qed

subsection \<open>Implementations\<close>

lemma impl_of_member:
  "m \<in> set (stmt_members d) \<Longrightarrow> member_impl m = Some x \<Longrightarrow> x \<in> set (stmt_impls d)"
proof (induction d rule: stmt_members.induct)
  case (1 n p ms)
  then show ?case by (force simp: List.map_filter_def)
next
  case (2 n ms)
  then show ?case by (force simp: List.map_filter_def)
next
  case (3 n b)
  then show ?case by auto
qed simp_all

lemma no_impls_no_bodies:
  assumes "file_impls = []"
  shows "list_all (\<lambda>m. member_impl m = None) file_members"
proof -
  have "member_impl m = None" if m: "m \<in> set file_members" for m
  proof (cases "member_impl m")
    case (Some x)
    from m obtain d where "d \<in> set globals" "m \<in> set (stmt_members d)"
      by (auto simp: file_members_def)
    with Some impl_of_member [of m d x] have "x \<in> set file_impls"
      by (auto simp: file_impls_def)
    with assms show ?thesis by simp
  qed simp
  then show ?thesis by (simp add: list_all_iff)
qed

lemma file_impls_empty: "file_impls = []"
  by (simp add: file_impls_def globals_eq Nodes_body_def)

lemma file_members_count: "length file_members = 136"
  by (simp add: file_members_def globals_eq Nodes_body_def length_concat)

lemma all_ambient: "list_all ambient source_file"
  by (simp add: source_file_def ambient_def CoffeeScriptStatic_decl_def)

lemma static_members:
  "all_members ''CoffeeScriptStatic'' =
     [Method ''nodes'' [(''source'', False, TString), (''options'', True, TAny)]
        (TQual ''Nodes'' ''Block'') None]"
  by (simp add: all_members_root) (simp add: CoffeeScriptStatic_decl_def)

lemma interface_methods_eq:
  "interface_methods =
     [Method ''nodes'' [(''source'', False, TString), (''options'', True, TAny)]
        (TQual ''Nodes'' ''Block'') None]"
  unfolding interface_methods_def nodes_namespace
  by (simp add: Nodes_body_def globals_eq)
     (simp add: AbstractO_decl_def ChildKind_decl_def LocationData_decl_def
        CoffeeScriptStatic_decl_def)

subsection \<open>Code fragments\<close>

lemma CodeFragment_members: "all_members ''CodeFragment'' = members_of CodeFragment_decl"
  by (simp add: all_members_root)

lemma example_fragment_conforms: "conforms example_fragment (TRef ''CodeFragment'')"
  by (simp add: instance_of_class_like decl_members_root example_fragment_def)
     (simp add: CodeFragment_decl_def has_slot_required example_location_conforms
        del: conforms.simps(10))

subsection \<open>The scope module\<close>

lemma Scope_members:
  "all_members ''Scope'' =
     [ Property ''variables'' False
         (TArray (TObject [(''name'', False, TString), (''type'', False, TString)])) None,
       Property ''positions'' False TAny None,
       Property ''utilities'' True TAny None ]"
  by (simp add: all_members_root) (simp add: Scope_decl_def)

lemma conforms_variable:
  "conforms x (TObject [(''name'', False, TString), (''type'', False, TString)]) =
     (\<exists>gs a b. x = VObj gs \<and> map_of gs ''name'' = Some (VStr a)
        \<and> map_of gs ''type'' = Some (VStr b))"
proof -
  have "has_slot fs =
      (\<lambda>s. case map_of fs (fst s) of
             None \<Rightarrow> fst (snd s)
           | Some w \<Rightarrow> (fst (snd s) \<and> w = VUndefined) \<or> conforms w (snd (snd s)))" for fs
    by (rule ext) (simp add: has_slot_def)
  then have "conforms x (TObject ss) = (\<exists>fs. x = VObj fs \<and> list_all (has_slot fs) ss)" for ss
    by (cases x) simp_all
  then show ?thesis
    by (auto simp: has_slot_required conforms_string simp del: conforms.simps)
qed

lemma conforms_Scope:
  "conforms v (TRef ''Scope'') =
     (\<exists>fs vars. v = VObj fs
        \<and> map_of fs ''variables'' = Some (VArr vars)
        \<and> list_all
            (\<lambda>x. \<exists>gs a b. x = VObj gs \<and> map_of gs ''name'' = Some (VStr a)
                   \<and> map_of gs ''type'' = Some (VStr b))
            vars
        \<and> map_of fs ''positions'' \<noteq> None)"
proof -
  have "conforms v (TRef ''Scope'') =
      (case v of
         VObj fs \<Rightarrow> list_all (has_slot fs) (map member_slot (all_members ''Scope''))
       | _ \<Rightarrow> False)"
    by (rule conforms_class [of _ Scope_decl]) simp_all
  then show ?thesis
    by (cases v)
       (auto simp: Scope_members has_slot_required has_slot_optional conforms_array
          conforms_variable simp del: conforms.simps(2,10,12,14) split: option.splits)
qed

section \<open>The properties\<close>

subsection \<open>The module exports a function that returns a block\<close>

text \<open>
  \<^bold>\<open>C1.\<close> The module \<^verbatim>\<open>coffeescript\<close> exports the constant \<^verbatim>\<open>CoffeeScript\<close>, whose declared type
  has the method \<^verbatim>\<open>nodes(source: string, options?: any): Nodes.Block\<close>. A call with any
  string, with or without a second argument of any value, is well typed, and every
  value that the declared result type admits is a \<^verbatim>\<open>Block\<close>: an object whose
  \<^verbatim>\<open>expressions\<close> member is an array of values of type \<^verbatim>\<open>Base\<close>. The file declares the
  function and does not define it, so this is what it promises of a result, not a
  computation of one.
\<close>

theorem nodes_returns_block:
  "exported ''coffeescript'' = Some (ConstDecl ''CoffeeScript'' (TRef ''CoffeeScriptStatic'') None)
   \<and> lookup_member ''CoffeeScriptStatic'' ''nodes'' =
       Some (Method ''nodes'' [(''source'', False, TString), (''options'', True, TAny)]
               (TQual ''Nodes'' ''Block'') None)
   \<and> lookup_qual ''Nodes'' ''Block'' = Some Block_decl
   \<and> lookup_member ''Block'' ''expressions'' =
       Some (Property ''expressions'' False (TArray (TRef ''Base'')) None)
   \<and> (\<forall>s. accepts ''CoffeeScriptStatic'' ''nodes'' [VStr s])
   \<and> (\<forall>s opts. accepts ''CoffeeScriptStatic'' ''nodes'' [VStr s, opts])
   \<and> (\<forall>v. may_return ''CoffeeScriptStatic'' ''nodes'' v \<longrightarrow>
         conforms v (TRef ''Block'')
         \<and> (\<exists>fs es. v = VObj fs \<and> map_of fs ''expressions'' = Some (VArr es)
              \<and> list_all (\<lambda>e. conforms e (TRef ''Base'')) es))"
proof -
  have n: "lookup_member ''CoffeeScriptStatic'' ''nodes'' =
       Some (Method ''nodes'' [(''source'', False, TString), (''options'', True, TAny)]
               (TQual ''Nodes'' ''Block'') None)"
    by (simp add: lookup_member_eq declares_def) (simp add: CoffeeScriptStatic_decl_def)
  have q: "lookup_qual ''Nodes'' ''Block'' = Some Block_decl"
    by (simp add: lookup_qual_def Nodes_body_def)
  have e: "lookup_member ''Block'' ''expressions'' =
       Some (Property ''expressions'' False (TArray (TRef ''Base'')) None)"
    by (simp add: lookup_member_eq declares_def) (simp add: Block_decl_def)
  have same: "conforms v (TQual ''Nodes'' ''Block'') = conforms v (TRef ''Block'')" for v
    by (simp add: q)
  have r: "conforms v (TRef ''Block'')
         \<and> (\<exists>fs es. v = VObj fs \<and> map_of fs ''expressions'' = Some (VArr es)
              \<and> list_all (\<lambda>e. conforms e (TRef ''Base'')) es)"
    if "may_return ''CoffeeScriptStatic'' ''nodes'' v" for v
  proof -
    from that n have v: "conforms v (TRef ''Block'')"
      by (simp add: may_return_def result_type_def same del: conforms.simps)
    from conforms_member [OF v _ _ e] v show ?thesis
      by (auto simp: has_slot_required conforms_array simp del: conforms.simps)
  qed
  have a1: "accepts ''CoffeeScriptStatic'' ''nodes'' [VStr s]" for s
    using n by (simp add: accepts_def params_of_def)
  have a2: "accepts ''CoffeeScriptStatic'' ''nodes'' [VStr s, opts]" for s opts
    using n by (simp add: accepts_def params_of_def)
  from exported_coffeescript n q e a1 a2 r show ?thesis by blast
qed

theorem nodes_returns_block_witness:
  "accepts ''CoffeeScriptStatic'' ''nodes'' [VStr ''x = 1'']
   \<and> accepts ''CoffeeScriptStatic'' ''nodes'' [VStr ''x = 1'', VObj []]
   \<and> may_return ''CoffeeScriptStatic'' ''nodes'' example_block
   \<and> conforms example_block (TRef ''Block'')
   \<and> (\<exists>fs es. example_block = VObj fs \<and> map_of fs ''expressions'' = Some (VArr es)
        \<and> list_all (\<lambda>e. conforms e (TRef ''Base'')) es)"
proof -
  have "may_return ''CoffeeScriptStatic'' ''nodes'' example_block"
    using nodes_returns_block example_block_conforms
    by (simp add: may_return_def result_type_def del: conforms.simps)
  with nodes_returns_block show ?thesis by blast
qed

subsection \<open>Every node carries children and a location\<close>

text \<open>
  \<^bold>\<open>C2.\<close> Every class that is \<^verbatim>\<open>Base\<close> or extends it has the members \<^verbatim>\<open>children\<close>, of type
  \<^verbatim>\<open>ChildKind[]\<close>, and \<^verbatim>\<open>locationData\<close>, of type \<^verbatim>\<open>LocationData\<close>; the declaration that
  counts for both is the one in \<^verbatim>\<open>Base\<close>, no subclass declares either again. Every value
  of such a class type is an object that carries an array of child kinds under
  \<^verbatim>\<open>children\<close> and a location under \<^verbatim>\<open>locationData\<close>.
\<close>

theorem node_carries_children_and_location:
  assumes "subclass_of c ''Base''"
  shows "lookup_member c ''children'' =
           Some (Property ''children'' False (TArray (TRef ''ChildKind'')) None)
       \<and> declared_in c ''children'' = Some ''Base''
       \<and> lookup_member c ''locationData'' =
           Some (Property ''locationData'' False (TRef ''LocationData'') None)
       \<and> declared_in c ''locationData'' = Some ''Base''
       \<and> (\<forall>v. conforms v (TRef c) \<longrightarrow>
             (\<exists>fs ks loc. v = VObj fs
                \<and> map_of fs ''children'' = Some (VArr ks)
                \<and> list_all (\<lambda>k. k \<in> VStr ` set child_kinds) ks
                \<and> map_of fs ''locationData'' = Some loc
                \<and> conforms loc (TRef ''LocationData'')))"
proof -
  from for_subclasses [OF node_class_members assms]
  obtain d where d: "lookup_type c = Some d" "class_like d"
    and ch: "lookup_member c ''children'' =
               Some (Property ''children'' False (TArray (TRef ''ChildKind'')) None)"
    and chd: "declared_in c ''children'' = Some ''Base''"
    and lo: "lookup_member c ''locationData'' =
               Some (Property ''locationData'' False (TRef ''LocationData'') None)"
    and lod: "declared_in c ''locationData'' = Some ''Base''"
    by blast
  have "\<exists>fs ks loc. v = VObj fs
          \<and> map_of fs ''children'' = Some (VArr ks)
          \<and> list_all (\<lambda>k. k \<in> VStr ` set child_kinds) ks
          \<and> map_of fs ''locationData'' = Some loc
          \<and> conforms loc (TRef ''LocationData'')" if v: "conforms v (TRef c)" for v
  proof -
    from conforms_member [OF v d ch] obtain fs where fs: "v = VObj fs"
      and "has_slot fs (''children'', False, TArray (TRef ''ChildKind''))"
      by auto
    then obtain ks where ks: "map_of fs ''children'' = Some (VArr ks)"
      "list_all (\<lambda>k. conforms k (TRef ''ChildKind'')) ks"
      unfolding has_slot_required conforms_array by blast
    from conforms_member [OF v d lo] fs
    have "has_slot fs (''locationData'', False, TRef ''LocationData'')"
      by auto
    then obtain loc where loc: "map_of fs ''locationData'' = Some loc"
      "conforms loc (TRef ''LocationData'')"
      unfolding has_slot_required by blast
    from ks(2) have "list_all (\<lambda>k. k \<in> VStr ` set child_kinds) ks"
      unfolding conforms_ChildKind .
    with fs ks(1) loc show ?thesis by blast
  qed
  with ch chd lo lod show ?thesis by blast
qed

theorem node_carries_children_and_location_witness:
  "subclass_of ''Expansion'' ''Base''
   \<and> conforms example_node (TRef ''Expansion'')
   \<and> declared_in ''Expansion'' ''children'' = Some ''Base''
   \<and> declared_in ''Expansion'' ''locationData'' = Some ''Base''
   \<and> (\<exists>fs ks loc. example_node = VObj fs
        \<and> map_of fs ''children'' = Some (VArr ks)
        \<and> list_all (\<lambda>k. k \<in> VStr ` set child_kinds) ks
        \<and> map_of fs ''locationData'' = Some loc
        \<and> conforms loc (TRef ''LocationData''))"
proof -
  have s: "subclass_of ''Expansion'' ''Base''" by simp
  from node_carries_children_and_location [OF s] example_node_expansion s
  show ?thesis by blast
qed

subsection \<open>Nothing in the file is implemented\<close>

text \<open>
  \<^bold>\<open>C3.\<close> The file holds no implementation: no method has a body and no property or
  constant an initializer, over all 136 members of its classes and interfaces. Every
  top-level statement is written under \<^verbatim>\<open>declare\<close> or is an interface. The one method
  that is declared outside the classes is \<^verbatim>\<open>nodes(source, options)\<close>, the only member of
  \<^verbatim>\<open>CoffeeScriptStatic\<close>: a signature without a body. The constant \<^verbatim>\<open>CoffeeScript\<close> of
  this type, which the module exports, is declared without a value.
\<close>

theorem no_implementations:
  "file_impls = []
   \<and> length file_members = 136
   \<and> list_all (\<lambda>m. member_impl m = None) file_members
   \<and> list_all ambient source_file
   \<and> interface_methods =
       [Method ''nodes'' [(''source'', False, TString), (''options'', True, TAny)]
          (TQual ''Nodes'' ''Block'') None]
   \<and> all_members ''CoffeeScriptStatic'' = interface_methods
   \<and> exported ''coffeescript'' =
       Some (ConstDecl ''CoffeeScript'' (TRef ''CoffeeScriptStatic'') None)"
  using file_impls_empty file_members_count no_impls_no_bodies [OF file_impls_empty]
    all_ambient interface_methods_eq static_members exported_coffeescript
  by (intro conjI) simp_all

theorem no_implementations_witness:
  "lookup_member ''CoffeeScriptStatic'' ''nodes'' =
     Some (Method ''nodes'' [(''source'', False, TString), (''options'', True, TAny)]
             (TQual ''Nodes'' ''Block'') None)
   \<and> member_impl (Method ''nodes'' [(''source'', False, TString), (''options'', True, TAny)]
        (TQual ''Nodes'' ''Block'') None) = None
   \<and> stmt_impls Base_decl = []
   \<and> ambient (Plain CoffeeScriptStatic_decl)"
proof -
  from no_implementations
  have "all_members ''CoffeeScriptStatic'' =
     [Method ''nodes'' [(''source'', False, TString), (''options'', True, TAny)]
        (TQual ''Nodes'' ''Block'') None]"
    by simp
  then show ?thesis
    by (simp add: lookup_member_def ambient_def CoffeeScriptStatic_decl_def)
qed

subsection \<open>More than fifty node classes\<close>

text \<open>
  \<^bold>\<open>C4.\<close> The namespace declares 70 distinct node classes: \<^verbatim>\<open>Base\<close> and 69 classes that
  extend it, which is more than fifty. Literals, expressions, control-flow constructs
  and module declarations are among them. The supporting types \<^verbatim>\<open>Scope\<close>,
  \<^verbatim>\<open>LocationData\<close> and \<^verbatim>\<open>CodeFragment\<close> are declared and are no node classes.
\<close>

theorem more_than_fifty_node_classes:
  "length node_classes = 70
   \<and> distinct node_classes
   \<and> length (removeAll ''Base'' node_classes) = 69
   \<and> list_all (\<lambda>c. subclass_of c ''Base'') node_classes
   \<and> list_all (\<lambda>c. c \<in> set node_classes)
        [''NumberLiteral'', ''StringLiteral'', ''BooleanLiteral'',
         ''Value'', ''Call'', ''Assign'', ''Op'', ''Code'',
         ''If'', ''While'', ''For'', ''Switch'', ''Try'', ''Return'',
         ''ImportDeclaration'', ''ExportDeclaration'', ''ModuleSpecifier'']
   \<and> lookup_type ''Scope'' = Some Scope_decl
   \<and> lookup_type ''LocationData'' = Some LocationData_decl
   \<and> lookup_type ''CodeFragment'' = Some CodeFragment_decl
   \<and> list_all (\<lambda>c. c \<notin> set node_classes) [''Scope'', ''LocationData'', ''CodeFragment'']"
proof (intro conjI)
  show "length node_classes = 70" by (simp add: node_classes_eq)
  show "distinct node_classes" by (rule node_classes_distinct)
  show "length (removeAll ''Base'' node_classes) = 69" by (simp add: node_classes_eq)
  show "list_all (\<lambda>c. subclass_of c ''Base'') node_classes"
    by (simp add: node_classes_def list_all_iff)
  show "list_all (\<lambda>c. c \<in> set node_classes)
        [''NumberLiteral'', ''StringLiteral'', ''BooleanLiteral'',
         ''Value'', ''Call'', ''Assign'', ''Op'', ''Code'',
         ''If'', ''While'', ''For'', ''Switch'', ''Try'', ''Return'',
         ''ImportDeclaration'', ''ExportDeclaration'', ''ModuleSpecifier'']"
    by (simp add: node_classes_def Nodes_body_def List.map_filter_simps)
  show "list_all (\<lambda>c. c \<notin> set node_classes) [''Scope'', ''LocationData'', ''CodeFragment'']"
    by (simp add: node_classes_def)
qed simp_all

theorem more_than_fifty_node_classes_witness:
  "(50::nat) < length node_classes \<and> 50 < length (removeAll ''Base'' node_classes)
   \<and> subclass_of ''Switch'' ''Base'' \<and> ''Switch'' \<in> set node_classes"
  using more_than_fifty_node_classes by (simp add: list_all_iff)

subsection \<open>Literals\<close>

text \<open>
  \<^bold>\<open>C5.\<close> \<^verbatim>\<open>NumberLiteral\<close> extends \<^verbatim>\<open>Literal\<close>, which extends \<^verbatim>\<open>Base\<close>, and the literal classes
  that the claim names are subclasses of \<^verbatim>\<open>Literal\<close>. For every subclass of \<^verbatim>\<open>Literal\<close>: it
  is a subclass of \<^verbatim>\<open>Base\<close>; it has the member \<^verbatim>\<open>value: string\<close>, declared in \<^verbatim>\<open>Literal\<close>; and
  each of its values is a value of type \<^verbatim>\<open>Literal\<close> and of type \<^verbatim>\<open>Base\<close> and carries a string
  under \<^verbatim>\<open>value\<close>.
\<close>

theorem literal_chain:
  "supers ''NumberLiteral'' = [''NumberLiteral'', ''Literal'', ''Base'']
   \<and> list_all (\<lambda>c. subclass_of c ''Literal'')
        [''NumberLiteral'', ''InfinityLiteral'', ''NaNLiteral'', ''StringLiteral'',
         ''IdentifierLiteral'', ''CSXTag'', ''BooleanLiteral'']
   \<and> (\<forall>c. subclass_of c ''Literal'' \<longrightarrow>
         subclass_of c ''Base''
         \<and> lookup_member c ''value'' = Some (Property ''value'' False TString None)
         \<and> declared_in c ''value'' = Some ''Literal''
         \<and> (\<forall>v. conforms v (TRef c) \<longrightarrow>
               conforms v (TRef ''Literal'') \<and> conforms v (TRef ''Base'')
               \<and> (\<exists>fs s. v = VObj fs \<and> map_of fs ''value'' = Some (VStr s))))"
proof (intro conjI allI impI)
  show "supers ''NumberLiteral'' = [''NumberLiteral'', ''Literal'', ''Base'']"
    by simp
  show "list_all (\<lambda>c. subclass_of c ''Literal'')
        [''NumberLiteral'', ''InfinityLiteral'', ''NaNLiteral'', ''StringLiteral'',
         ''IdentifierLiteral'', ''CSXTag'', ''BooleanLiteral'']"
    by simp
next
  fix c assume c: "subclass_of c ''Literal''"
  from for_subclasses [OF literal_class_members c]
  obtain d where b: "subclass_of c ''Base''" and d: "lookup_type c = Some d" "class_like d"
    and m: "all_members c = all_members ''Literal''"
    and di: "declared_in c ''value'' = Some ''Literal''"
    by blast
  have val: "lookup_member ''Literal'' ''value'' = Some (Property ''value'' False TString None)"
    by (simp add: lookup_member_eq) (simp add: Literal_decl_def)
  show "subclass_of c ''Base''" by (rule b)
  show lv: "lookup_member c ''value'' = Some (Property ''value'' False TString None)"
    using val by (simp add: lookup_member_def m)
  show "declared_in c ''value'' = Some ''Literal''" by (rule di)
  fix v assume v: "conforms v (TRef c)"
  have "conforms v (TRef ''Literal'') =
      (case v of
         VObj fs \<Rightarrow> list_all (has_slot fs) (map member_slot (all_members ''Literal''))
       | _ \<Rightarrow> False)"
    by (rule conforms_class [of _ Literal_decl]) simp_all
  with v show l: "conforms v (TRef ''Literal'')"
    by (simp only: conforms_class [OF d] m)
  from l show "conforms v (TRef ''Base'')" by (rule literal_is_base)
  from conforms_member [OF v d lv]
  show "\<exists>fs s. v = VObj fs \<and> map_of fs ''value'' = Some (VStr s)"
    by (auto simp: has_slot_required conforms_string simp del: conforms.simps)
qed

theorem literal_chain_witness:
  "subclass_of ''NumberLiteral'' ''Literal''
   \<and> subclass_of ''NumberLiteral'' ''Base''
   \<and> conforms example_literal (TRef ''NumberLiteral'')
   \<and> conforms example_literal (TRef ''Literal'')
   \<and> conforms example_literal (TRef ''Base'')
   \<and> (\<exists>fs s. example_literal = VObj fs \<and> map_of fs ''value'' = Some (VStr s))"
proof -
  have s: "subclass_of ''NumberLiteral'' ''Literal''" by simp
  from literal_chain s example_literal_conforms show ?thesis by blast
qed

subsection \<open>Location data\<close>

text \<open>
  \<^bold>\<open>C6.\<close> \<^verbatim>\<open>LocationData\<close> has exactly four members, \<^verbatim>\<open>first_line\<close>, \<^verbatim>\<open>first_column\<close>,
  \<^verbatim>\<open>last_line\<close> and \<^verbatim>\<open>last_column\<close>, each required and of type \<^verbatim>\<open>number\<close>; it is the type
  of the member \<^verbatim>\<open>locationData\<close> of a node. Its values are the objects that carry a
  number under each of the four names.
\<close>

theorem location_data_fields:
  "all_members ''LocationData'' =
     [ Property ''first_line'' False TNumber None,
       Property ''first_column'' False TNumber None,
       Property ''last_line'' False TNumber None,
       Property ''last_column'' False TNumber None ]
   \<and> lookup_member ''Base'' ''locationData'' =
       Some (Property ''locationData'' False (TRef ''LocationData'') None)
   \<and> (\<forall>v. conforms v (TRef ''LocationData'') =
         (\<exists>fs a b c d. v = VObj fs
            \<and> map_of fs ''first_line'' = Some (VNum a)
            \<and> map_of fs ''first_column'' = Some (VNum b)
            \<and> map_of fs ''last_line'' = Some (VNum c)
            \<and> map_of fs ''last_column'' = Some (VNum d)))"
proof (intro conjI allI)
  show "all_members ''LocationData'' =
     [ Property ''first_line'' False TNumber None,
       Property ''first_column'' False TNumber None,
       Property ''last_line'' False TNumber None,
       Property ''last_column'' False TNumber None ]"
    by (simp add: all_members_root) (simp add: LocationData_decl_def)
  show "lookup_member ''Base'' ''locationData'' =
       Some (Property ''locationData'' False (TRef ''LocationData'') None)"
    by (simp add: lookup_member_eq) (simp add: Base_decl_def)
  show "conforms v (TRef ''LocationData'') =
         (\<exists>fs a b c d. v = VObj fs
            \<and> map_of fs ''first_line'' = Some (VNum a)
            \<and> map_of fs ''first_column'' = Some (VNum b)
            \<and> map_of fs ''last_line'' = Some (VNum c)
            \<and> map_of fs ''last_column'' = Some (VNum d))" for v
    by (rule conforms_LocationData)
qed

theorem location_data_fields_witness:
  "conforms example_location (TRef ''LocationData'')
   \<and> example_location =
       VObj [(''first_line'', VNum 0), (''first_column'', VNum 0),
             (''last_line'', VNum 0), (''last_column'', VNum 4)]
   \<and> length (all_members ''LocationData'') = 4"
  using location_data_fields by (simp add: example_location_def del: conforms.simps)

subsection \<open>The scope module\<close>

text \<open>
  \<^bold>\<open>C7.\<close> The module \<^verbatim>\<open>coffeescript/lib/coffeescript/scope\<close> exports the class \<^verbatim>\<open>Scope\<close>. Its
  members are \<^verbatim>\<open>variables\<close>, an array of objects with a string \<^verbatim>\<open>name\<close> and a string \<^verbatim>\<open>type\<close>;
  \<^verbatim>\<open>positions\<close>, of type \<^verbatim>\<open>any\<close>; and the optional \<^verbatim>\<open>utilities\<close>, of type \<^verbatim>\<open>any\<close>. Its values are
  the objects with such an array under \<^verbatim>\<open>variables\<close> and some value under \<^verbatim>\<open>positions\<close>.
\<close>

theorem scope_module_exports_scope:
  "exported ''coffeescript/lib/coffeescript/scope'' = Some Scope_decl
   \<and> lookup_type ''Scope'' = Some Scope_decl
   \<and> all_members ''Scope'' =
       [ Property ''variables'' False
           (TArray (TObject [(''name'', False, TString), (''type'', False, TString)])) None,
         Property ''positions'' False TAny None,
         Property ''utilities'' True TAny None ]
   \<and> (\<forall>v. conforms v (TRef ''Scope'') =
         (\<exists>fs vars. v = VObj fs
            \<and> map_of fs ''variables'' = Some (VArr vars)
            \<and> list_all
                (\<lambda>x. \<exists>gs a b. x = VObj gs \<and> map_of gs ''name'' = Some (VStr a)
                       \<and> map_of gs ''type'' = Some (VStr b))
                vars
            \<and> map_of fs ''positions'' \<noteq> None))"
  using exported_scope Scope_members conforms_Scope by simp

theorem scope_module_exports_scope_witness:
  "conforms example_scope (TRef ''Scope'')
   \<and> (\<exists>fs. example_scope = VObj fs \<and> map_of fs ''utilities'' = None)
   \<and> length (all_members ''Scope'') = 3"
proof -
  from scope_module_exports_scope
  have "conforms example_scope (TRef ''Scope'') =
         (\<exists>fs vars. example_scope = VObj fs
            \<and> map_of fs ''variables'' = Some (VArr vars)
            \<and> list_all
                (\<lambda>x. \<exists>gs a b. x = VObj gs \<and> map_of gs ''name'' = Some (VStr a)
                       \<and> map_of gs ''type'' = Some (VStr b))
                vars
            \<and> map_of fs ''positions'' \<noteq> None)"
    and "length (all_members ''Scope'') = 3"
    by simp_all
  then show ?thesis by (simp add: example_scope_def del: conforms.simps)
qed

subsection \<open>The result of contains\<close>

text \<open>
  \<^bold>\<open>C8.\<close> For every node class, \<^verbatim>\<open>contains\<close> is the method that \<^verbatim>\<open>Base\<close> declares: it takes
  one argument of type \<^verbatim>\<open>Base\<close> and its result type is \<^verbatim>\<open>true | undefined\<close>. The values of
  that type are \<^verbatim>\<open>true\<close> and \<^verbatim>\<open>undefined\<close> and no other, so \<^verbatim>\<open>false\<close> is not among the results
  that the declaration allows.
\<close>

theorem contains_never_returns_false:
  assumes "subclass_of c ''Base''"
  shows "params_of c ''contains'' = Some [(''pred'', False, TRef ''Base'')]
       \<and> result_type c ''contains'' = Some (TUnion [TTrue, TUndefined])
       \<and> declared_in c ''contains'' = Some ''Base''
       \<and> (\<forall>p. accepts c ''contains'' [p] = conforms p (TRef ''Base''))
       \<and> (\<forall>v. may_return c ''contains'' v = (v = VBool True \<or> v = VUndefined))
       \<and> \<not> may_return c ''contains'' (VBool False)"
proof -
  from for_subclasses [OF node_class_members assms]
  have m: "lookup_member c ''contains'' =
      Some (Method ''contains'' [(''pred'', False, TRef ''Base'')] (TUnion [TTrue, TUndefined]) None)"
    and d: "declared_in c ''contains'' = Some ''Base''"
    by blast+
  from m d show ?thesis
    by (simp add: params_of_def result_type_def accepts_def may_return_def del: conforms.simps(10))
qed

theorem contains_never_returns_false_witness:
  "subclass_of ''Block'' ''Base''
   \<and> accepts ''Block'' ''contains'' [example_node]
   \<and> may_return ''Block'' ''contains'' (VBool True)
   \<and> may_return ''Block'' ''contains'' VUndefined
   \<and> \<not> may_return ''Block'' ''contains'' (VBool False)"
proof -
  have s: "subclass_of ''Block'' ''Base''" by simp
  from contains_never_returns_false [OF s] example_node_conforms s
  show ?thesis by simp
qed

subsection \<open>Code fragments have no code member\<close>

text \<open>
  \<^bold>\<open>C9.\<close> The members of \<^verbatim>\<open>CodeFragment\<close> are \<^verbatim>\<open>locationData\<close> and \<^verbatim>\<open>toString()\<close> and no
  other: it has no member \<^verbatim>\<open>code\<close> and no superclass to inherit one from. \<^verbatim>\<open>toString\<close>
  takes no argument and returns a string. An object without a \<^verbatim>\<open>code\<close> property is a
  value of the type. The documentation comment of the class speaks of the fragments'
  \<^verbatim>\<open>code\<close> snippets all the same.
\<close>

theorem code_fragment_has_no_code_member:
  "map member_name (all_members ''CodeFragment'') = [''locationData'', ''toString'']
   \<and> lookup_member ''CodeFragment'' ''code'' = None
   \<and> lookup_member ''CodeFragment'' ''locationData'' =
       Some (Property ''locationData'' False (TRef ''LocationData'') None)
   \<and> lookup_member ''CodeFragment'' ''toString'' = Some (Method ''toString'' [] TString None)
   \<and> supers ''CodeFragment'' = [''CodeFragment'']
   \<and> accepts ''CodeFragment'' ''toString'' []
   \<and> (\<forall>v. may_return ''CodeFragment'' ''toString'' v = (\<exists>s. v = VStr s))
   \<and> conforms example_fragment (TRef ''CodeFragment'')
   \<and> (\<exists>fs. example_fragment = VObj fs \<and> map_of fs ''code'' = None)
   \<and> (\<exists>pre post. last CodeFragment_doc = pre @ ''`code` snippets'' @ post)"
proof (intro conjI allI)
  show "map member_name (all_members ''CodeFragment'') = [''locationData'', ''toString'']"
    using member_names_decl(3) by (simp add: CodeFragment_members member_names_def)
  show "lookup_member ''CodeFragment'' ''code'' = None"
    by (simp add: lookup_member_eq declares_def)
  show "lookup_member ''CodeFragment'' ''locationData'' =
       Some (Property ''locationData'' False (TRef ''LocationData'') None)"
    by (simp add: lookup_member_eq) (simp add: CodeFragment_decl_def)
  show ts: "lookup_member ''CodeFragment'' ''toString'' = Some (Method ''toString'' [] TString None)"
    by (simp add: lookup_member_eq declares_def) (simp add: CodeFragment_decl_def)
  show "supers ''CodeFragment'' = [''CodeFragment'']" by simp
  show "accepts ''CodeFragment'' ''toString'' []"
    by (simp add: accepts_def params_of_def ts)
  show "may_return ''CodeFragment'' ''toString'' v = (\<exists>s. v = VStr s)" for v
    by (simp add: may_return_def result_type_def ts conforms_string del: conforms.simps)
  show "conforms example_fragment (TRef ''CodeFragment'')"
    by (rule example_fragment_conforms)
  show "\<exists>fs. example_fragment = VObj fs \<and> map_of fs ''code'' = None"
    by (simp add: example_fragment_def)
  have "last CodeFragment_doc = ''all the CodeFragments' '' @ ''`code` snippets'' @ '', in order.''"
    by (simp add: CodeFragment_doc_def)
  then show "\<exists>pre post. last CodeFragment_doc = pre @ ''`code` snippets'' @ post"
    by blast
qed

theorem code_fragment_has_no_code_member_witness:
  "may_return ''CodeFragment'' ''toString'' (VStr ''x = 1;'')
   \<and> \<not> may_return ''CodeFragment'' ''toString'' (VNum 1)
   \<and> conforms example_fragment (TRef ''CodeFragment'')
   \<and> member_names CodeFragment_decl = [''locationData'', ''toString'']"
  using code_fragment_has_no_code_member by simp

subsection \<open>The operands of an operator\<close>

text \<open>
  \<^bold>\<open>C10.\<close> The members that \<^verbatim>\<open>Op\<close> declares are \<^verbatim>\<open>first: string\<close> and \<^verbatim>\<open>sencond: string\<close>, in
  this spelling; \<^verbatim>\<open>Op\<close> has no member \<^verbatim>\<open>second\<close>. A value of type \<^verbatim>\<open>Op\<close> carries a string
  under each of the two names, and no string is a value of type \<^verbatim>\<open>Base\<close>: the operands
  are not nodes.
\<close>

theorem op_operands_are_strings:
  "lookup_member ''Op'' ''first'' = Some (Property ''first'' False TString None)
   \<and> lookup_member ''Op'' ''sencond'' = Some (Property ''sencond'' False TString None)
   \<and> lookup_member ''Op'' ''second'' = None
   \<and> member_names Op_decl = [''first'', ''sencond'']
   \<and> (\<forall>v. conforms v (TRef ''Op'') \<longrightarrow>
         (\<exists>fs a b. v = VObj fs \<and> map_of fs ''first'' = Some (VStr a)
            \<and> map_of fs ''sencond'' = Some (VStr b)))
   \<and> (\<forall>w. conforms w TString \<longrightarrow> \<not> conforms w (TRef ''Base''))"
proof (intro conjI allI impI)
  show f: "lookup_member ''Op'' ''first'' = Some (Property ''first'' False TString None)"
    by (simp add: lookup_member_eq declares_def) (simp add: Op_decl_def)
  show s: "lookup_member ''Op'' ''sencond'' = Some (Property ''sencond'' False TString None)"
    by (simp add: lookup_member_eq declares_def) (simp add: Op_decl_def)
  show "lookup_member ''Op'' ''second'' = None"
    by (simp add: lookup_member_eq declares_def)
  show "member_names Op_decl = [''first'', ''sencond'']"
    by simp
  show "\<exists>fs a b. v = VObj fs \<and> map_of fs ''first'' = Some (VStr a)
            \<and> map_of fs ''sencond'' = Some (VStr b)" if "conforms v (TRef ''Op'')" for v
    using conforms_member [OF that _ _ f] conforms_member [OF that _ _ s]
    by (auto simp: has_slot_required conforms_string simp del: conforms.simps)
  show "\<not> conforms w (TRef ''Base'')" if "conforms w TString" for w
    using that by (cases w) (simp_all add: instance_of_class_like)
qed

theorem op_operands_are_strings_witness:
  "conforms example_op (TRef ''Op'')
   \<and> (\<exists>fs a b. example_op = VObj fs \<and> map_of fs ''first'' = Some (VStr a)
        \<and> map_of fs ''sencond'' = Some (VStr b))
   \<and> conforms (VStr ''a'') TString
   \<and> \<not> conforms (VStr ''a'') (TRef ''Base'')"
proof -
  have "conforms (VStr ''a'') TString" by simp
  with op_operands_are_strings example_op_conforms show ?thesis by blast
qed

end
